theory Spec2Isabelle
  imports Main
begin

section \<open>Python values\<close>

text \<open>
  A Python \<^verbatim>\<open>str\<close> is a sequence of Unicode code points, so the Hebrew settlement names
  are lists of natural numbers. Dictionary keys written by the program are ASCII and are
  kept as HOL strings; \<open>ascii\<close> turns an ASCII literal into a Python string.
\<close>

type_synonym pystr = "nat list"

definition ascii :: "string \<Rightarrow> pystr" where
  "ascii s = map of_char s"

text \<open>
  A decoded JSON document, which is also the shape of every dictionary the program builds.
  A \<^verbatim>\<open>dict\<close> is an association list in insertion order; the program only ever assigns
  fresh keys when it builds one, so appending a pair is the assignment.
  JSON numbers with a fraction are kept as the pair mantissa, exponent; no operation of the
  program looks inside them.
\<close>

datatype json =
    JNull
  | JBool bool
  | JInt int
  | JFloat int int
  | JStr pystr
  | JList "json list"
  | JObj "(string \<times> json) list"

text \<open>
  The exceptions that can travel through the client and the tools. Those whose message the
  program writes itself carry the message.
\<close>

datatype exn =
    RequestException pystr
  | Exception pystr
  | ValueError
  | TypeError
  | AttributeError
  | OverflowError

text \<open>\<^verbatim>\<open>x if c else None\<close> style truthiness of the optional argument types.\<close>

fun truthy_str :: "pystr option \<Rightarrow> bool" where
  "truthy_str None = False"
| "truthy_str (Some s) = (s \<noteq> [])"

fun truthy_list :: "int list option \<Rightarrow> bool" where
  "truthy_list None = False"
| "truthy_list (Some xs) = (xs \<noteq> [])"

fun truthy_int :: "int option \<Rightarrow> bool" where
  "truthy_int None = False"
| "truthy_int (Some k) = (k \<noteq> 0)"

text \<open>
  \<^verbatim>\<open>xs[start:stop]\<close> on a sequence: a negative bound counts from the end, and both bounds
  are clamped to the sequence, so a slice never raises.
\<close>

definition clamp_index :: "nat \<Rightarrow> int \<Rightarrow> nat" where
  "clamp_index n i = (if i < 0 then nat (max 0 (int n + i)) else min (nat i) n)"

definition py_slice :: "'a list \<Rightarrow> int \<Rightarrow> int \<Rightarrow> 'a list" where
  "py_slice xs start stop =
     (let lo = clamp_index (length xs) start;
          hi = clamp_index (length xs) stop
      in take (hi - lo) (drop lo xs))"

text \<open>
  \<^verbatim>\<open>v[start:stop]\<close> on a decoded JSON value: lists and strings are sliced, a \<^verbatim>\<open>dict\<close>
  rejects the slice as a key and every other value is not subscriptable.
\<close>

fun py_getslice :: "json \<Rightarrow> int \<Rightarrow> int \<Rightarrow> exn + json" where
  "py_getslice (JList xs) start stop = Inr (JList (py_slice xs start stop))"
| "py_getslice (JStr s) start stop = Inr (JStr (py_slice s start stop))"
| "py_getslice v start stop = Inl TypeError"

text \<open>\<^verbatim>\<open>len(v)\<close>; a value without a length raises.\<close>

fun py_len :: "json \<Rightarrow> exn + int" where
  "py_len (JList xs) = Inr (int (length xs))"
| "py_len (JStr s) = Inr (int (length s))"
| "py_len (JObj kvs) = Inr (int (length kvs))"
| "py_len v = Inl TypeError"

text \<open>
  \<^verbatim>\<open>str.isspace\<close> on one code point and \<^verbatim>\<open>str.strip()\<close> with no argument.
\<close>

definition is_space :: "nat \<Rightarrow> bool" where
  "is_space c \<longleftrightarrow>
     (9 \<le> c \<and> c \<le> 13) \<or> (28 \<le> c \<and> c \<le> 32) \<or> c = 133 \<or> c = 160 \<or> c = 5760
     \<or> (8192 \<le> c \<and> c \<le> 8202) \<or> c = 8232 \<or> c = 8233 \<or> c = 8239 \<or> c = 8287
     \<or> c = 12288"

definition py_strip :: "pystr \<Rightarrow> pystr" where
  "py_strip s = rev (dropWhile is_space (rev (dropWhile is_space s)))"

text \<open>\<^verbatim>\<open>needle in hay\<close> on strings: \<open>needle\<close> occurs as a contiguous run of \<open>hay\<close>.\<close>

fun starts_with :: "'a list \<Rightarrow> 'a list \<Rightarrow> bool" where
  "starts_with hay [] = True"
| "starts_with [] (c # needle) = False"
| "starts_with (h # hay) (c # needle) = (h = c \<and> starts_with hay needle)"

fun py_in :: "'a list \<Rightarrow> 'a list \<Rightarrow> bool" where
  "py_in needle [] = (needle = [])"
| "py_in needle (h # hay) = (starts_with (h # hay) needle \<or> py_in needle hay)"

text \<open>\<^verbatim>\<open>str(n)\<close> for an integer: decimal digits, with a minus sign when negative.\<close>

fun str_nat :: "nat \<Rightarrow> pystr" where
  "str_nat n = (if n < 10 then [48 + n] else str_nat (n div 10) @ [48 + n mod 10])"

definition str_int :: "int \<Rightarrow> pystr" where
  "str_int i = (if i < 0 then 45 # str_nat (nat (- i)) else str_nat (nat i))"

text \<open>Sequencing of steps that may raise: the first exception ends the computation.\<close>

fun and_then :: "exn + 'a \<Rightarrow> ('a \<Rightarrow> exn + 'b) \<Rightarrow> exn + 'b" where
  "and_then (Inl e) f = Inl e"
| "and_then (Inr x) f = f x"

text \<open>The JSON value of an optional argument that is written into a dictionary.\<close>

fun str_value :: "pystr option \<Rightarrow> json" where
  "str_value None = JNull"
| "str_value (Some s) = JStr s"

fun ints_value :: "int list option \<Rightarrow> json" where
  "ints_value None = JNull"
| "ints_value (Some xs) = JList (map JInt xs)"

fun int_value :: "int option \<Rightarrow> json" where
  "int_value None = JNull"
| "int_value (Some k) = JInt k"

fun bool_value :: "bool option \<Rightarrow> json" where
  "bool_value None = JNull"
| "bool_value (Some b) = JBool b"

text \<open>
  \<^verbatim>\<open>if cond: payload[key] = value\<close> on a dictionary that does not hold \<open>key\<close> yet: the
  pair is appended when the condition holds.
\<close>

definition put_if :: "bool \<Rightarrow> string \<Rightarrow> json \<Rightarrow> (string \<times> json) list" where
  "put_if cond key v = (if cond then [(key, v)] else [])"

text \<open>\<^verbatim>\<open>d[key] = v\<close> on any dictionary: an existing key keeps its place.\<close>

fun dict_set :: "string \<Rightarrow> json \<Rightarrow> (string \<times> json) list \<Rightarrow> (string \<times> json) list" where
  "dict_set key v [] = [(key, v)]"
| "dict_set key v ((k, w) # kvs) =
     (if k = key then (k, v) # kvs else (k, w) # dict_set key v kvs)"

text \<open>\<^verbatim>\<open>d.get(key)\<close> read on a decoded value; only a dictionary holds keys.\<close>

fun py_get :: "json \<Rightarrow> string \<Rightarrow> json option" where
  "py_get (JObj kvs) key = map_of kvs key"
| "py_get v key = None"

section \<open>Data model\<close>

text \<open>\<^verbatim>\<open>models/arg_models.py\<close>, \<^verbatim>\<open>models/reference_models.py\<close>.\<close>

record DateRange =
  from_date :: "pystr option"
  to_date :: "pystr option"

record SearchTendersArgs =
  tender_number :: "pystr option"
  tender_types :: "int list option"
  settlement :: "pystr option"
  kod_yeshuv :: "int option"
  neighborhood :: "pystr option"
  tender_purposes :: "int list option"
  regions :: "int list option"
  tender_statuses :: "int list option"
  submission_deadline :: "DateRange option"
  committee_date :: "DateRange option"
  publication_date :: "DateRange option"
  priority_populations :: "int list option"
  active_only :: bool
  quick_search :: bool
  max_results :: int
  purpose :: "pystr option"
  region :: "pystr option"
  days_back :: "int option"

text \<open>
  \<^verbatim>\<open>SearchTendersArgs()\<close> with no argument: every field at its declared default.
\<close>

definition default_args :: SearchTendersArgs where
  "default_args =
     \<lparr>tender_number = None, tender_types = None, settlement = None, kod_yeshuv = None,
      neighborhood = None, tender_purposes = None, regions = None, tender_statuses = None,
      submission_deadline = None, committee_date = None, publication_date = None,
      priority_populations = None, active_only = False, quick_search = False,
      max_results = 100, purpose = None, region = None, days_back = None\<rparr>"

text \<open>
  \<^verbatim>\<open>Settlement\<close>; the field \<^verbatim>\<open>kod_yeshuv\<close> is written \<open>kod_yeshuv_s\<close> here, the plain
  name being the field of \<open>SearchTendersArgs\<close>. The catalog \<^verbatim>\<open>KOD_YESHUV_SETTLEMENTS\<close>
  is built from a data table that is not part of the sources, so every function that reads
  it takes the catalog as an argument.
\<close>

record Settlement =
  kod_yeshuv_s :: int
  name_hebrew :: pystr

text \<open>
  The library and the clock. The type \<open>'d\<close> is \<^verbatim>\<open>datetime\<close>:
  \<^item> \<open>lower\<close> is \<^verbatim>\<open>str.lower\<close>;
  \<^item> \<open>strptime s\<close> is \<^verbatim>\<open>datetime.strptime(s, "%d/%m/%y")\<close>, \<open>None\<close> when it raises
    \<^verbatim>\<open>ValueError\<close>;
  \<^item> \<open>strftime d\<close> is \<^verbatim>\<open>d.strftime("%d/%m/%y")\<close>;
  \<^item> \<open>days_before_now n\<close> is \<^verbatim>\<open>datetime.now() - timedelta(days=n)\<close>, \<open>None\<close> when it
    raises \<^verbatim>\<open>OverflowError\<close>;
  \<^item> \<open>str_exn e\<close> is \<^verbatim>\<open>str(e)\<close> for a caught exception;
  \<^item> \<open>model_dump args\<close> is \<^verbatim>\<open>args.model_dump(exclude_unset=True)\<close>.
\<close>

record 'd pylib =
  lower :: "pystr \<Rightarrow> pystr"
  strptime :: "pystr \<Rightarrow> 'd option"
  strftime :: "'d \<Rightarrow> pystr"
  days_before_now :: "int \<Rightarrow> 'd option"
  str_exn :: "exn \<Rightarrow> pystr"
  model_dump :: "SearchTendersArgs \<Rightarrow> json"

section \<open>The API client\<close>

text \<open>
  \<^verbatim>\<open>client/israeli_land_api.py\<close>. The parameters of \<^verbatim>\<open>IsraeliLandAPI.search_tenders\<close>,
  each named as in the source with a prime.
\<close>

record 'd search_call =
  tender_number' :: "pystr option"
  tender_types' :: "int list option"
  settlement' :: "pystr option"
  kod_yeshuv' :: "int option"
  neighborhood' :: "pystr option"
  purpose' :: "pystr option"
  region' :: "pystr option"
  submission_date_from' :: "'d option"
  submission_date_to' :: "'d option"
  publication_date_from' :: "'d option"
  publication_date_to' :: "'d option"
  committee_date_from' :: "'d option"
  committee_date_to' :: "'d option"
  tender_purposes' :: "int list option"
  regions' :: "int list option"
  tender_statuses' :: "int list option"
  priority_populations' :: "int list option"
  active_only' :: bool
  quick_search' :: bool
  has_results' :: "bool option"
  sort_by' :: "pystr option"
  sort_order' :: "pystr option"
  page_size' :: int
  page_number' :: int

text \<open>The call with every parameter at its default.\<close>

definition default_call :: "'d search_call" where
  "default_call =
     \<lparr>tender_number' = None, tender_types' = None, settlement' = None, kod_yeshuv' = None,
      neighborhood' = None, purpose' = None, region' = None,
      submission_date_from' = None, submission_date_to' = None,
      publication_date_from' = None, publication_date_to' = None,
      committee_date_from' = None, committee_date_to' = None,
      tender_purposes' = None, regions' = None, tender_statuses' = None,
      priority_populations' = None, active_only' = False, quick_search' = False,
      has_results' = None, sort_by' = None, sort_order' = None,
      page_size' = 100, page_number' = 1\<rparr>"

text \<open>
  A date-range filter: the sub-object is created when either bound is given and receives
  \<open>from\<close> and \<open>to\<close> for the bounds that are.
\<close>

definition date_filter ::
  "'d pylib \<Rightarrow> string \<Rightarrow> 'd option \<Rightarrow> 'd option \<Rightarrow> (string \<times> json) list" where
  "date_filter lib key date_from date_to =
     put_if (date_from \<noteq> None \<or> date_to \<noteq> None) key
       (JObj ((case date_from of None \<Rightarrow> [] | Some d \<Rightarrow> [(''from'', JStr (strftime lib d))])
            @ (case date_to of None \<Rightarrow> [] | Some d \<Rightarrow> [(''to'', JStr (strftime lib d))])))"

text \<open>
  The request payload of \<^verbatim>\<open>search_tenders\<close> (the Query Builder), key by key in the order
  of the source.
\<close>

definition build_payload :: "'d pylib \<Rightarrow> 'd search_call \<Rightarrow> (string \<times> json) list" where
  "build_payload lib c =
     [(''ActiveQuickSearch'', JBool (quick_search' c)),
      (''ActiveMichraz'', JBool (active_only' c))]
     @ put_if (truthy_str (tender_number' c)) ''MisMichraz'' (str_value (tender_number' c))
     @ put_if (truthy_list (tender_types' c)) ''SugMichraz'' (ints_value (tender_types' c))
     @ (if truthy_int (kod_yeshuv' c)
        then [(''KodYeshuv'', int_value (kod_yeshuv' c))]
        else put_if (truthy_str (settlement' c)) ''Yishuv'' (str_value (settlement' c)))
     @ put_if (truthy_str (neighborhood' c)) ''Shchuna'' (str_value (neighborhood' c))
     @ put_if (truthy_list (tender_purposes' c)) ''YeudMichraz''
         (ints_value (tender_purposes' c))
     @ put_if (truthy_list (regions' c)) ''Merchav'' (ints_value (regions' c))
     @ put_if (truthy_list (tender_statuses' c)) ''StatusMichraz''
         (ints_value (tender_statuses' c))
     @ put_if (truthy_list (priority_populations' c)) ''PriorityPopulations''
         (ints_value (priority_populations' c))
     @ date_filter lib ''CloseDate'' (submission_date_from' c) (submission_date_to' c)
     @ date_filter lib ''VaadaDate'' (committee_date_from' c) (committee_date_to' c)
     @ date_filter lib ''PirsumDate'' (publication_date_from' c) (publication_date_to' c)
     @ put_if (truthy_str (purpose' c) \<and> \<not> truthy_list (tender_purposes' c)) ''purpose''
         (str_value (purpose' c))
     @ put_if (truthy_str (region' c) \<and> \<not> truthy_list (regions' c)) ''region''
         (str_value (region' c))
     @ put_if (has_results' c \<noteq> None) ''hasResults'' (bool_value (has_results' c))
     @ put_if (truthy_str (sort_by' c)) ''sortBy'' (str_value (sort_by' c))
     @ put_if (truthy_str (sort_order' c)) ''sortOrder'' (str_value (sort_order' c))"

text \<open>
  Client-side pagination of the decoded response (the Pagination Adapter). A list is
  sliced; a dictionary with a \<open>results\<close> key has that entry replaced by its slice; a
  dictionary without one is returned as it is. Any other decoded value fails the
  membership test or the subscript.
\<close>

fun paginate :: "json \<Rightarrow> int \<Rightarrow> int \<Rightarrow> exn + json" where
  "paginate (JList xs) page_size page_number =
     (let start_idx = (page_number - 1) * page_size;
          end_idx = start_idx + page_size
      in Inr (JList (py_slice xs start_idx end_idx)))"
| "paginate (JObj kvs) page_size page_number =
     (case map_of kvs ''results'' of
        None \<Rightarrow> Inr (JObj kvs)
      | Some v \<Rightarrow>
          (let start_idx = (page_number - 1) * page_size;
               end_idx = start_idx + page_size
           in and_then (py_getslice v start_idx end_idx)
                (\<lambda>page. Inr (JObj (dict_set ''results'' page kvs)))))"
| "paginate (JStr s) page_size page_number =
     (if py_in (ascii ''results'') s then Inl TypeError else Inr (JStr s))"
| "paginate v page_size page_number = Inl TypeError"

text \<open>
  \<^verbatim>\<open>IsraeliLandAPI.search_tenders\<close>. The argument \<open>post\<close> is the upstream service seen
  through the session: it maps the payload to the decoded body, or to the exception that
  \<^verbatim>\<open>session.post\<close>, \<^verbatim>\<open>raise_for_status\<close> or \<^verbatim>\<open>response.json\<close> raised. A
  \<^verbatim>\<open>RequestException\<close> is wrapped, anything else propagates. The wait of
  \<^verbatim>\<open>_rate_limit\<close> changes no value and is left out.
\<close>

definition search_tenders ::
  "'d pylib \<Rightarrow> ((string \<times> json) list \<Rightarrow> exn + json) \<Rightarrow> 'd search_call \<Rightarrow> exn + json" where
  "search_tenders lib post c =
     (case post (build_payload lib c) of
        Inl (RequestException m) \<Rightarrow> Inl (Exception (ascii ''Failed to search tenders: '' @ m))
      | Inl e \<Rightarrow> Inl e
      | Inr data \<Rightarrow> paginate data (page_size' c) (page_number' c))"

text \<open>\<^verbatim>\<open>IsraeliLandAPI.get_tender_details\<close>, with \<open>get\<close> the detail endpoint.\<close>

definition get_tender_details :: "(int \<Rightarrow> exn + json) \<Rightarrow> int \<Rightarrow> exn + json" where
  "get_tender_details get michraz_id =
     (case get michraz_id of
        Inl (RequestException m) \<Rightarrow>
          Inl (Exception (ascii ''Failed to get tender details for ID '' @ str_int michraz_id
                          @ ascii '': '' @ m))
      | Inl e \<Rightarrow> Inl e
      | Inr details \<Rightarrow> Inr details)"


section \<open>Settlement lookup\<close>

text \<open>
  The loop \<^verbatim>\<open>for settlement in KOD_YESHUV_SETTLEMENTS: if settlement.name_hebrew == name\<close>
  that leaves at the first hit; it occurs in \<^verbatim>\<open>get_kod_yeshuv\<close>, in the search tool and in
  \<^verbatim>\<open>convert_settlement_name_to_code\<close>.
\<close>

fun find_exact :: "Settlement list \<Rightarrow> pystr \<Rightarrow> Settlement option" where
  "find_exact [] name = None"
| "find_exact (s # rest) name =
     (if name_hebrew s = name then Some s else find_exact rest name)"

text \<open>\<^verbatim>\<open>utils/settlement_utils.py\<close>.\<close>

definition convert_settlement_name_to_code :: "Settlement list \<Rightarrow> pystr \<Rightarrow> int option" where
  "convert_settlement_name_to_code catalog settlement_name =
     map_option kod_yeshuv_s (find_exact catalog (py_strip settlement_name))"

text \<open>One entry of \<^verbatim>\<open>partial_matches\<close>.\<close>

definition partial_entry :: "Settlement \<Rightarrow> json" where
  "partial_entry s =
     JObj [(''settlement_name'', JStr (name_hebrew s)),
           (''kod_yeshuv'', JInt (kod_yeshuv_s s)),
           (''similarity'', JStr (ascii ''partial''))]"

text \<open>
  The second loop of \<^verbatim>\<open>get_kod_yeshuv\<close>, which appends to \<^verbatim>\<open>partial_matches\<close>.
\<close>

fun collect_partial ::
  "(pystr \<Rightarrow> pystr) \<Rightarrow> Settlement list \<Rightarrow> pystr \<Rightarrow> json list \<Rightarrow> json list" where
  "collect_partial lw [] settlement_lower partial_matches = partial_matches"
| "collect_partial lw (s # rest) settlement_lower partial_matches =
     (let name_lower = lw (name_hebrew s)
      in if py_in settlement_lower name_lower \<or> py_in name_lower settlement_lower
         then collect_partial lw rest settlement_lower (partial_matches @ [partial_entry s])
         else collect_partial lw rest settlement_lower partial_matches)"

text \<open>
  \<^verbatim>\<open>tools/settlement_tools.py\<close>, \<^verbatim>\<open>get_kod_yeshuv\<close>. Nothing in the body of its
  \<^verbatim>\<open>try\<close> can raise on a string argument, so the handler is never entered and the
  function returns one of the three dictionaries below.
\<close>

definition get_kod_yeshuv :: "'d pylib \<Rightarrow> Settlement list \<Rightarrow> pystr \<Rightarrow> json" where
  "get_kod_yeshuv lib catalog settlement_name_arg =
     (let settlement_name = py_strip settlement_name_arg
      in case find_exact catalog settlement_name of
           Some s \<Rightarrow>
             JObj [(''success'', JBool True),
                   (''settlement_name'', JStr settlement_name),
                   (''kod_yeshuv'', JInt (kod_yeshuv_s s)),
                   (''match_type'', JStr (ascii ''exact''))]
         | None \<Rightarrow>
             (let partial_matches =
                    collect_partial (lower lib) catalog (lower lib settlement_name) []
              in if partial_matches \<noteq> []
                 then JObj [(''success'', JBool True),
                            (''searched_name'', JStr settlement_name),
                            (''exact_match'', JBool False),
                            (''partial_matches'', JList (py_slice partial_matches 0 10)),
                            (''match_type'', JStr (ascii ''partial''))]
                 else JObj [(''success'', JBool False),
                            (''error'', JStr (ascii ''No settlement found matching ''
                                             @ [39] @ settlement_name @ [39])),
                            (''searched_name'', JStr settlement_name),
                            (''suggestion'', JStr (ascii
               ''Try using the exact Hebrew name or check the settlement name spelling''))]))"

section \<open>Tender tools\<close>

text \<open>
  \<^verbatim>\<open>tools/tender_tools.py\<close>. One bound of a date range: parsed when the range is given
  and the bound is a non-empty string.
\<close>

definition parse_bound ::
  "'d pylib \<Rightarrow> DateRange option \<Rightarrow> (DateRange \<Rightarrow> pystr option) \<Rightarrow> exn + 'd option" where
  "parse_bound lib date_range bound =
     (case date_range of
        None \<Rightarrow> Inr None
      | Some r \<Rightarrow>
          (case bound r of
             None \<Rightarrow> Inr None
           | Some s \<Rightarrow>
               if s = [] then Inr None
               else (case strptime lib s of None \<Rightarrow> Inl ValueError | Some d \<Rightarrow> Inr (Some d))))"

text \<open>\<^verbatim>\<open>if args.days_back and not submission_date_from\<close>.\<close>

definition legacy_days_back :: "'d pylib \<Rightarrow> int option \<Rightarrow> 'd option \<Rightarrow> exn + 'd option" where
  "legacy_days_back lib days submission_date_from =
     (case days of
        None \<Rightarrow> Inr submission_date_from
      | Some n \<Rightarrow>
          if n \<noteq> 0 \<and> submission_date_from = None
          then (case days_before_now lib n of
                  None \<Rightarrow> Inl OverflowError
                | Some d \<Rightarrow> Inr (Some d))
          else Inr submission_date_from)"

text \<open>The settlement name is converted when it is given and no code is.\<close>

definition final_kod_yeshuv :: "Settlement list \<Rightarrow> SearchTendersArgs \<Rightarrow> int option" where
  "final_kod_yeshuv catalog args =
     (case settlement args of
        None \<Rightarrow> kod_yeshuv args
      | Some name \<Rightarrow>
          if name \<noteq> [] \<and> \<not> truthy_int (kod_yeshuv args)
          then (case find_exact catalog (py_strip name) of
                  Some s \<Rightarrow> Some (kod_yeshuv_s s)
                | None \<Rightarrow> kod_yeshuv args)
          else kod_yeshuv args)"

text \<open>
  The arguments with which the tool \<^verbatim>\<open>search_tenders\<close> calls the client, or the
  exception raised while preparing them. The steps run in the order of the source.
\<close>

definition tool_call ::
  "'d pylib \<Rightarrow> Settlement list \<Rightarrow> SearchTendersArgs \<Rightarrow> exn + 'd search_call" where
  "tool_call lib catalog args =
     and_then (parse_bound lib (submission_deadline args) from_date) (\<lambda>sub_from.
     and_then (parse_bound lib (submission_deadline args) to_date) (\<lambda>sub_to.
     and_then (parse_bound lib (publication_date args) from_date) (\<lambda>pub_from.
     and_then (parse_bound lib (publication_date args) to_date) (\<lambda>pub_to.
     and_then (legacy_days_back lib (days_back args) sub_from) (\<lambda>sub_from.
     and_then (parse_bound lib (committee_date args) from_date) (\<lambda>com_from.
     and_then (parse_bound lib (committee_date args) to_date) (\<lambda>com_to.
       Inr \<lparr>tender_number' = tender_number args,
            tender_types' = tender_types args,
            settlement' = (if \<not> truthy_int (final_kod_yeshuv catalog args)
                           then settlement args else None),
            kod_yeshuv' = final_kod_yeshuv catalog args,
            neighborhood' = neighborhood args,
            purpose' = purpose args,
            region' = region args,
            submission_date_from' = sub_from,
            submission_date_to' = sub_to,
            publication_date_from' = pub_from,
            publication_date_to' = pub_to,
            committee_date_from' = com_from,
            committee_date_to' = com_to,
            tender_purposes' = tender_purposes args,
            regions' = regions args,
            tender_statuses' = tender_statuses args,
            priority_populations' = priority_populations args,
            active_only' = active_only args,
            quick_search' = quick_search args,
            has_results' = None,
            sort_by' = None,
            sort_order' = None,
            page_size' = min (max_results args) 1000,
            page_number' = 1\<rparr>)))))))"

text \<open>The payload the tool sends upstream, when it gets as far as sending one.\<close>

definition tool_payload ::
  "'d pylib \<Rightarrow> Settlement list \<Rightarrow> SearchTendersArgs \<Rightarrow> exn + (string \<times> json) list" where
  "tool_payload lib catalog args =
     and_then (tool_call lib catalog args) (\<lambda>c. Inr (build_payload lib c))"

text \<open>
  \<^verbatim>\<open>tender_list\<close>: the client's result cut to \<^verbatim>\<open>max_results\<close>. A dictionary without
  \<open>results\<close> is subscripted itself, and a result that is neither a list nor a dictionary
  has no \<^verbatim>\<open>get\<close>.
\<close>

fun tender_list_of :: "json \<Rightarrow> int \<Rightarrow> exn + json" where
  "tender_list_of (JList xs) n = Inr (JList (py_slice xs 0 n))"
| "tender_list_of (JObj kvs) n =
     (case map_of kvs ''results'' of
        None \<Rightarrow> py_getslice (JObj kvs) 0 n
      | Some v \<Rightarrow> py_getslice v 0 n)"
| "tender_list_of v n = Inl AttributeError"

definition search_summary ::
  "'d pylib \<Rightarrow> Settlement list \<Rightarrow> SearchTendersArgs \<Rightarrow> json" where
  "search_summary lib catalog args =
     JObj [(''parameters_used'', model_dump lib args),
           (''new_features'',
              JObj [(''enhanced_date_ranges'',
                       JBool (submission_deadline args \<noteq> None \<or> publication_date args \<noteq> None)),
                    (''priority_populations'', JBool (truthy_list (priority_populations args))),
                    (''multiple_statuses'', JBool (truthy_list (tender_statuses args))),
                    (''multiple_purposes'', JBool (truthy_list (tender_purposes args))),
                    (''multiple_regions'', JBool (truthy_list (regions args)))]),
           (''settlement_conversion'',
              JObj [(''settlement_name_provided'', JBool (truthy_str (settlement args))),
                    (''kod_yeshuv_resolved'',
                       (if truthy_str (settlement args) \<and> \<not> truthy_int (kod_yeshuv args)
                        then int_value (final_kod_yeshuv catalog args) else JNull)),
                    (''conversion_successful'',
                       JBool (truthy_str (settlement args) \<and> \<not> truthy_int (kod_yeshuv args)
                              \<and> truthy_int (final_kod_yeshuv catalog args)))])]"

text \<open>The tool \<^verbatim>\<open>search_tenders\<close>: every exception becomes the failure dictionary.\<close>

definition search_tenders_tool ::
  "'d pylib \<Rightarrow> Settlement list \<Rightarrow> ((string \<times> json) list \<Rightarrow> exn + json)
     \<Rightarrow> SearchTendersArgs \<Rightarrow> json" where
  "search_tenders_tool lib catalog post args =
     (case and_then (tool_call lib catalog args) (\<lambda>c.
           and_then (search_tenders lib post c) (\<lambda>results.
           and_then (tender_list_of results (max_results args)) (\<lambda>tender_list.
           and_then (py_len tender_list) (\<lambda>count. Inr (count, tender_list))))) of
        Inr (count, tender_list) \<Rightarrow>
          JObj [(''success'', JBool True),
                (''count'', JInt count),
                (''tenders'', tender_list),
                (''search_summary'', search_summary lib catalog args)]
      | Inl e \<Rightarrow>
          JObj [(''success'', JBool False),
                (''error'', JStr (str_exn lib e)),
                (''search_parameters'', model_dump lib args)])"

text \<open>The tool \<^verbatim>\<open>get_tender_details\<close>.\<close>

definition get_tender_details_tool ::
  "'d pylib \<Rightarrow> (int \<Rightarrow> exn + json) \<Rightarrow> int \<Rightarrow> json" where
  "get_tender_details_tool lib get michraz_id =
     (case get_tender_details get michraz_id of
        Inr details \<Rightarrow>
          JObj [(''success'', JBool True),
                (''tender_id'', JInt michraz_id),
                (''details'', details)]
      | Inl e \<Rightarrow>
          JObj [(''success'', JBool False),
                (''error'', JStr (str_exn lib e)),
                (''tender_id'', JInt michraz_id)])"

section \<open>Falsy and absent filters\<close>

text \<open>
  What "a falsy value is treated like an absent one" says, written out: every optional
  filter of the call that holds \<open>0\<close>, the empty string or the empty list is replaced by
  \<open>None\<close>. The flag \<open>has_results'\<close> is a boolean tested with \<^verbatim>\<open>is not None\<close> and the
  dates are \<^verbatim>\<open>datetime\<close> objects, which are never falsy; they are left as they are.
\<close>

definition absent_str :: "pystr option \<Rightarrow> pystr option" where
  "absent_str v = (if v = Some [] then None else v)"

definition absent_list :: "int list option \<Rightarrow> int list option" where
  "absent_list v = (if v = Some [] then None else v)"

definition absent_int :: "int option \<Rightarrow> int option" where
  "absent_int v = (if v = Some 0 then None else v)"

definition absent_if_falsy :: "'d search_call \<Rightarrow> 'd search_call" where
  "absent_if_falsy c =
     c\<lparr>tender_number' := absent_str (tender_number' c),
       tender_types' := absent_list (tender_types' c),
       settlement' := absent_str (settlement' c),
       kod_yeshuv' := absent_int (kod_yeshuv' c),
       neighborhood' := absent_str (neighborhood' c),
       purpose' := absent_str (purpose' c),
       region' := absent_str (region' c),
       tender_purposes' := absent_list (tender_purposes' c),
       regions' := absent_list (regions' c),
       tender_statuses' := absent_list (tender_statuses' c),
       priority_populations' := absent_list (priority_populations' c),
       sort_by' := absent_str (sort_by' c),
       sort_order' := absent_str (sort_order' c)\<rparr>"

section \<open>Concrete inputs\<close>

text \<open>
  A stand-in for the library, used to run the definitions on concrete inputs: lower-casing
  of the ASCII letters (Hebrew has no case), dates kept as their eight-character text, a
  fixed clock.
\<close>

definition test_lib :: "pystr pylib" where
  "test_lib =
     \<lparr>lower = map (\<lambda>c. if 65 \<le> c \<and> c \<le> 90 then c + 32 else c),
      strptime = (\<lambda>s. if length s = 8 then Some s else None),
      strftime = (\<lambda>d. d),
      days_before_now = (\<lambda>n. Some (ascii ''01/01/26'')),
      str_exn = (\<lambda>e. case e of Exception m \<Rightarrow> m | RequestException m \<Rightarrow> m | _ \<Rightarrow> []),
      model_dump = (\<lambda>args. JNull)\<rparr>"

text \<open>The name \<^verbatim>\<open>tel aviv\<close> in Hebrew letters, and a three-entry catalog.\<close>

definition tel_aviv :: pystr where
  "tel_aviv = [1514, 1500, 32, 1488, 1489, 1497, 1489]"

definition haifa :: pystr where
  "haifa = [1495, 1497, 1508, 1492]"

definition test_catalog :: "Settlement list" where
  "test_catalog =
     [\<lparr>kod_yeshuv_s = 4000, name_hebrew = haifa\<rparr>,
      \<lparr>kod_yeshuv_s = 5000, name_hebrew = tel_aviv\<rparr>,
      \<lparr>kod_yeshuv_s = 3000, name_hebrew = [1497, 1512, 1493, 1513, 1500, 1497, 1501]\<rparr>]"

text \<open>Twelve single-letter settlements, for a query that matches more than ten.\<close>

definition twelve_catalog :: "Settlement list" where
  "twelve_catalog =
     map (\<lambda>k. \<lparr>kod_yeshuv_s = 100 + int k, name_hebrew = [1488 + k]\<rparr>)
       [0, 1, 2, 3, 4, 5, 6, 7, 8, 9, 10, 11]"

text \<open>
  The body the detail endpoint answers with status 200 for a tender that does not exist
  (the message text is \<^verbatim>\<open>lo kayam\<close> in Hebrew letters), and an endpoint that answers so.
\<close>

definition not_found_payload :: json where
  "not_found_payload =
     JObj [(''MichrazID'', JInt 0),
           (''MessageDetails'',
              JObj [(''messageCode'', JInt 1),
                    (''messageText'', JStr [1500, 1488, 32, 1511, 1497, 1497, 1501])])]"

definition not_found_endpoint :: "int \<Rightarrow> exn + json" where
  "not_found_endpoint michraz_id = Inr not_found_payload"

text \<open>
  Upstream services that answer every search with the same list: twelve records, three
  records, and 1200 of them.
\<close>

definition twelve_records :: "json list" where
  "twelve_records = map JInt [1, 2, 3, 4, 5, 6, 7, 8, 9, 10, 11, 12]"

definition twelve_upstream :: "(string \<times> json) list \<Rightarrow> exn + json" where
  "twelve_upstream payload = Inr (JList twelve_records)"

definition three_upstream :: "(string \<times> json) list \<Rightarrow> exn + json" where
  "three_upstream payload = Inr (JList [JInt 1, JInt 2, JInt 3])"

definition many_upstream :: "(string \<times> json) list \<Rightarrow> exn + json" where
  "many_upstream payload = Inr (JList (replicate 1200 JNull))"

section \<open>Properties\<close>

subsection \<open>Slices and pagination\<close>

lemma py_slice_nonneg:
  assumes "0 \<le> a" "a \<le> b"
  shows "py_slice xs a b = take (nat (b - a)) (drop (nat a) xs)"
proof (cases "nat a \<le> length xs")
  case True
  with assms have lo: "clamp_index (length xs) a = nat a"
    by (simp add: clamp_index_def)
  from assms have hi: "clamp_index (length xs) b = min (nat b) (length xs)"
    by (simp add: clamp_index_def)
  have "take (min (nat b) (length xs) - nat a) (drop (nat a) xs)
        = take (nat (b - a)) (drop (nat a) xs)"
  proof (cases "nat b \<le> length xs")
    case True
    with assms show ?thesis by (simp add: nat_diff_distrib)
  next
    case False
    with assms have "length (drop (nat a) xs) \<le> nat (b - a)"
      by (simp add: nat_diff_distrib)
    moreover from False have "min (nat b) (length xs) - nat a = length (drop (nat a) xs)"
      by simp
    ultimately show ?thesis by simp
  qed
  with lo hi show ?thesis by (simp add: py_slice_def)
next
  case False
  with assms have "clamp_index (length xs) a = length xs"
    by (simp add: clamp_index_def)
  with False show ?thesis by (simp add: py_slice_def)
qed

lemma py_slice_prefix: "0 \<le> n \<Longrightarrow> py_slice xs 0 n = take (nat n) xs"
  using py_slice_nonneg [of 0 n xs] by simp

lemma page_bounds:
  assumes "0 < (s::int)" "1 \<le> n"
  shows "0 \<le> (n - 1) * s" and "(n - 1) * s \<le> (n - 1) * s + s"
  using assms by simp_all

lemma paginate_list:
  assumes "0 < s" "1 \<le> n"
  shows "paginate (JList seq) s n = Inr (JList (take (nat s) (drop (nat ((n - 1) * s)) seq)))"
  using py_slice_nonneg [OF page_bounds [OF assms], of seq] by (simp add: Let_def)

lemma map_of_dict_set_other:
  "k \<noteq> key \<Longrightarrow> map_of (dict_set key v kvs) k = map_of kvs k"
  by (induction kvs) auto

lemma map_of_dict_set_same: "map_of (dict_set key v kvs) key = Some v"
  by (induction kvs) auto

lemma keys_dict_set:
  "map_of kvs key \<noteq> None \<Longrightarrow> map fst (dict_set key v kvs) = map fst kvs"
  by (induction kvs) auto

lemma paginate_envelope:
  assumes "0 < s" "1 \<le> n" "map_of kvs ''results'' = Some (JList seq)"
  shows "paginate (JObj kvs) s n =
           Inr (JObj (dict_set ''results''
                  (JList (take (nat s) (drop (nat ((n - 1) * s)) seq))) kvs))"
  using py_slice_nonneg [OF page_bounds [OF assms(1,2)], of seq] assms(3)
  by (simp add: Let_def)

lemma nth_take_drop:
  assumes "i < length (take m (drop k xs))"
  shows "take m (drop k xs) ! i = xs ! (k + i)"
proof -
  from assms have "i < m" and "i < length xs - k" by simp_all
  then have "i < m" and "k \<le> length xs" by arith+
  then show ?thesis by simp
qed

text \<open>
  Claim C4. For a page size \<open>s > 0\<close> and a page number \<open>n \<ge> 1\<close> the pagination
  returns \<^verbatim>\<open>seq[(n-1)*s : n*s]\<close>: the \<open>s\<close> elements after the first \<open>(n-1)*s\<close>, fewer
  or none when the sequence ends before, element \<open>i\<close> of the page being element
  \<open>(n-1)*s + i\<close> of the sequence, and never an exception. A bare list is sliced itself; in
  a dictionary the \<open>results\<close> entry is replaced by its slice, the keys keeping their order
  and every other entry its value. On twelve elements with \<open>s = 5\<close> the three pages have 5,
  5 and 2 elements, follow one another in the sequence and together make it up, so the
  first two share no position (and no element when the sequence has no duplicates).
\<close>

theorem paginate_is_slice:
  "(0 < s \<and> 1 \<le> n \<longrightarrow>
      paginate (JList seq) s n = Inr (JList (take (nat s) (drop (nat ((n - 1) * s)) seq)))
      \<and> (map_of kvs ''results'' = Some (JList seq) \<longrightarrow>
           paginate (JObj kvs) s n =
             Inr (JObj (dict_set ''results''
                    (JList (take (nat s) (drop (nat ((n - 1) * s)) seq))) kvs))
           \<and> map fst (dict_set ''results''
                    (JList (take (nat s) (drop (nat ((n - 1) * s)) seq))) kvs) = map fst kvs
           \<and> (\<forall>k. k \<noteq> ''results'' \<longrightarrow>
                 map_of (dict_set ''results''
                    (JList (take (nat s) (drop (nat ((n - 1) * s)) seq))) kvs) k = map_of kvs k))
      \<and> length (take (nat s) (drop (nat ((n - 1) * s)) seq))
          = min (nat s) (length seq - nat ((n - 1) * s))
      \<and> (\<forall>i < length (take (nat s) (drop (nat ((n - 1) * s)) seq)).
            take (nat s) (drop (nat ((n - 1) * s)) seq) ! i = seq ! (nat ((n - 1) * s) + i)))
   \<and> (length seq = 12 \<longrightarrow>
        paginate (JList seq) 5 1 = Inr (JList (take 5 seq))
        \<and> paginate (JList seq) 5 2 = Inr (JList (take 5 (drop 5 seq)))
        \<and> paginate (JList seq) 5 3 = Inr (JList (drop 10 seq))
        \<and> length (take 5 seq) = 5 \<and> length (take 5 (drop 5 seq)) = 5
        \<and> length (drop 10 seq) = 2
        \<and> take 5 seq @ take 5 (drop 5 seq) @ drop 10 seq = seq
        \<and> (distinct seq \<longrightarrow> set (take 5 seq) \<inter> set (take 5 (drop 5 seq)) = {}))"
proof (intro conjI impI allI)
  assume h: "0 < s \<and> 1 \<le> n"
  then show "paginate (JList seq) s n
               = Inr (JList (take (nat s) (drop (nat ((n - 1) * s)) seq)))"
    using paginate_list [of s n seq] by blast
  show "length (take (nat s) (drop (nat ((n - 1) * s)) seq))
          = min (nat s) (length seq - nat ((n - 1) * s))"
    by (simp add: min.commute)
  {
    assume r: "map_of kvs ''results'' = Some (JList seq)"
    from h r show "paginate (JObj kvs) s n =
             Inr (JObj (dict_set ''results''
                    (JList (take (nat s) (drop (nat ((n - 1) * s)) seq))) kvs))"
      using paginate_envelope [of s n kvs seq] by blast
    from r show "map fst (dict_set ''results''
                    (JList (take (nat s) (drop (nat ((n - 1) * s)) seq))) kvs) = map fst kvs"
      by (simp add: keys_dict_set)
  }
next
  fix k :: string
  assume "k \<noteq> ''results''"
  then show "map_of (dict_set ''results''
                    (JList (take (nat s) (drop (nat ((n - 1) * s)) seq))) kvs) k = map_of kvs k"
    by (rule map_of_dict_set_other)
next
  fix i
  assume "i < length (take (nat s) (drop (nat ((n - 1) * s)) seq))"
  then show "take (nat s) (drop (nat ((n - 1) * s)) seq) ! i = seq ! (nat ((n - 1) * s) + i)"
    by (rule nth_take_drop)
next
  assume l: "length seq = 12"
  show "paginate (JList seq) 5 1 = Inr (JList (take 5 seq))"
    using paginate_list [of 5 1 seq] by (simp del: paginate.simps)
  show "paginate (JList seq) 5 2 = Inr (JList (take 5 (drop 5 seq)))"
    using paginate_list [of 5 2 seq] by (simp del: paginate.simps)
  show "paginate (JList seq) 5 3 = Inr (JList (drop 10 seq))"
    using paginate_list [of 5 3 seq] l by (simp del: paginate.simps)
  from l show "length (take 5 seq) = 5" by simp
  from l show "length (take 5 (drop 5 seq)) = 5" by simp
  from l show "length (drop 10 seq) = 2" by simp
  have "take 5 (drop 5 seq) @ drop 10 seq = drop 5 seq"
    using append_take_drop_id [of 5 "drop 5 seq"] by simp
  then show "take 5 seq @ take 5 (drop 5 seq) @ drop 10 seq = seq"
    by simp
  {
    assume "distinct seq"
    then have "set (take 5 seq) \<inter> set (drop 5 seq) = {}"
      by (rule set_take_disj_set_drop_if_distinct) simp
    moreover have "set (take 5 (drop 5 seq)) \<subseteq> set (drop 5 seq)"
      by (rule set_take_subset)
    ultimately show "set (take 5 seq) \<inter> set (take 5 (drop 5 seq)) = {}"
      by blast
  }
qed

theorem paginate_is_slice_witness:
  "paginate (JList (map JInt [1, 2, 3, 4, 5, 6, 7, 8, 9, 10, 11, 12])) 5 3
     = Inr (JList [JInt 11, JInt 12])
   \<and> paginate (JList (map JInt [1, 2, 3, 4, 5, 6, 7, 8, 9, 10, 11, 12])) 5 4
     = Inr (JList [])
   \<and> paginate (JObj [(''total'', JInt 12),
                     (''results'', JList (map JInt [1, 2, 3, 4, 5, 6, 7, 8, 9, 10, 11, 12]))]) 5 3
     = Inr (JObj [(''total'', JInt 12), (''results'', JList [JInt 11, JInt 12])])"
  using paginate_is_slice [of 5 3 "map JInt [1, 2, 3, 4, 5, 6, 7, 8, 9, 10, 11, 12]"
          "[(''total'', JInt 12),
            (''results'', JList (map JInt [1, 2, 3, 4, 5, 6, 7, 8, 9, 10, 11, 12]))]"]
        paginate_is_slice [of 5 4 "map JInt [1, 2, 3, 4, 5, 6, 7, 8, 9, 10, 11, 12]" "[]"]
  by simp

subsection \<open>The request payload\<close>

lemma key_in_put_if [simp]: "k' \<in> fst ` set (put_if b k v) \<longleftrightarrow> b \<and> k = k'"
  by (auto simp: put_if_def)

lemma key_in_date_filter [simp]:
  "k' \<in> fst ` set (date_filter lib k f t) \<longleftrightarrow> (f \<noteq> None \<or> t \<noteq> None) \<and> k = k'"
  by (simp add: date_filter_def)

lemma map_of_put_if [simp]:
  "map_of (put_if b k v) k' = (if b \<and> k = k' then Some v else None)"
  by (simp add: put_if_def)

lemma map_of_date_filter_other [simp]:
  "k \<noteq> k' \<Longrightarrow> map_of (date_filter lib k f t) k' = None"
  by (simp add: date_filter_def)

lemma payload_none:
  assumes "tender_number' c = None" "tender_types' c = None" "settlement' c = None"
    "kod_yeshuv' c = None" "neighborhood' c = None" "purpose' c = None" "region' c = None"
    "submission_date_from' c = None" "submission_date_to' c = None"
    "publication_date_from' c = None" "publication_date_to' c = None"
    "committee_date_from' c = None" "committee_date_to' c = None"
    "tender_purposes' c = None" "regions' c = None" "tender_statuses' c = None"
    "priority_populations' c = None" "has_results' c = None" "sort_by' c = None"
    "sort_order' c = None"
  shows "build_payload lib c =
           [(''ActiveQuickSearch'', JBool (quick_search' c)),
            (''ActiveMichraz'', JBool (active_only' c))]"
  using assms by (simp add: build_payload_def put_if_def date_filter_def)

lemma purpose_key:
  "''purpose'' \<in> fst ` set (build_payload lib c)
     \<longleftrightarrow> truthy_str (purpose' c) \<and> \<not> truthy_list (tender_purposes' c)"
  by (simp add: build_payload_def image_Un)

lemma region_key:
  "''region'' \<in> fst ` set (build_payload lib c)
     \<longleftrightarrow> truthy_str (region' c) \<and> \<not> truthy_list (regions' c)"
  by (simp add: build_payload_def image_Un)

lemma kod_key:
  "''KodYeshuv'' \<in> fst ` set (build_payload lib c) \<longleftrightarrow> truthy_int (kod_yeshuv' c)"
  by (simp add: build_payload_def image_Un)

lemma yishuv_key:
  "''Yishuv'' \<in> fst ` set (build_payload lib c)
     \<longleftrightarrow> \<not> truthy_int (kod_yeshuv' c) \<and> truthy_str (settlement' c)"
  by (simp add: build_payload_def image_Un)

lemma map_of_append_apply:
  "map_of (xs @ ys) k = (case map_of xs k of None \<Rightarrow> map_of ys k | Some v \<Rightarrow> Some v)"
  by (simp add: map_add_def split: option.splits)

lemma kod_value:
  "map_of (build_payload lib c) ''KodYeshuv''
     = (if truthy_int (kod_yeshuv' c) then Some (int_value (kod_yeshuv' c)) else None)"
  by (simp add: build_payload_def map_of_append_apply del: map_of_append)

lemma yishuv_value:
  "map_of (build_payload lib c) ''Yishuv''
     = (if \<not> truthy_int (kod_yeshuv' c) \<and> truthy_str (settlement' c)
        then Some (str_value (settlement' c)) else None)"
  by (simp add: build_payload_def map_of_append_apply del: map_of_append)

text \<open>
  Claim C3. When every optional filter of the call is \<open>None\<close> and \<open>active_only\<close> is
  true, the payload consists of the two flags \<open>ActiveQuickSearch\<close> and \<open>ActiveMichraz\<close>
  and nothing else.
\<close>

theorem no_filter_payload:
  "tender_number' c = None \<and> tender_types' c = None \<and> settlement' c = None
   \<and> kod_yeshuv' c = None \<and> neighborhood' c = None \<and> purpose' c = None
   \<and> region' c = None \<and> submission_date_from' c = None \<and> submission_date_to' c = None
   \<and> publication_date_from' c = None \<and> publication_date_to' c = None
   \<and> committee_date_from' c = None \<and> committee_date_to' c = None
   \<and> tender_purposes' c = None \<and> regions' c = None \<and> tender_statuses' c = None
   \<and> priority_populations' c = None \<and> has_results' c = None \<and> sort_by' c = None
   \<and> sort_order' c = None \<and> active_only' c
   \<longrightarrow> build_payload lib c =
         [(''ActiveQuickSearch'', JBool (quick_search' c)), (''ActiveMichraz'', JBool True)]
       \<and> fst ` set (build_payload lib c) = {''ActiveQuickSearch'', ''ActiveMichraz''}
       \<and> length (build_payload lib c) = 2"
proof
  assume h: "tender_number' c = None \<and> tender_types' c = None \<and> settlement' c = None
   \<and> kod_yeshuv' c = None \<and> neighborhood' c = None \<and> purpose' c = None
   \<and> region' c = None \<and> submission_date_from' c = None \<and> submission_date_to' c = None
   \<and> publication_date_from' c = None \<and> publication_date_to' c = None
   \<and> committee_date_from' c = None \<and> committee_date_to' c = None
   \<and> tender_purposes' c = None \<and> regions' c = None \<and> tender_statuses' c = None
   \<and> priority_populations' c = None \<and> has_results' c = None \<and> sort_by' c = None
   \<and> sort_order' c = None \<and> active_only' c"
  then have "build_payload lib c =
         [(''ActiveQuickSearch'', JBool (quick_search' c)), (''ActiveMichraz'', JBool (active_only' c))]"
    by (intro payload_none) simp_all
  with h have p: "build_payload lib c =
         [(''ActiveQuickSearch'', JBool (quick_search' c)), (''ActiveMichraz'', JBool True)]"
    by simp
  show "build_payload lib c =
         [(''ActiveQuickSearch'', JBool (quick_search' c)), (''ActiveMichraz'', JBool True)]
       \<and> fst ` set (build_payload lib c) = {''ActiveQuickSearch'', ''ActiveMichraz''}
       \<and> length (build_payload lib c) = 2"
    unfolding p by simp
qed

theorem no_filter_payload_witness:
  "build_payload test_lib (default_call\<lparr>active_only' := True\<rparr>)
     = [(''ActiveQuickSearch'', JBool False), (''ActiveMichraz'', JBool True)]"
  using no_filter_payload [of "default_call\<lparr>active_only' := True\<rparr>" test_lib]
  by (simp add: default_call_def)

text \<open>
  Claim C8. The legacy key \<open>purpose\<close> is in the payload exactly when a purpose string is
  supplied and no list of tender-purpose codes is, and the legacy key \<open>region\<close> exactly
  when a region string is supplied and no list of region codes is; a code list that is
  present removes the legacy key. Supplied and present mean neither \<open>None\<close> nor empty,
  which is how the query builder reads every filter.
\<close>

theorem legacy_keys:
  "(''purpose'' \<in> fst ` set (build_payload lib c)
      \<longleftrightarrow> truthy_str (purpose' c) \<and> \<not> truthy_list (tender_purposes' c))
   \<and> (''region'' \<in> fst ` set (build_payload lib c)
      \<longleftrightarrow> truthy_str (region' c) \<and> \<not> truthy_list (regions' c))
   \<and> (truthy_list (tender_purposes' c) \<longrightarrow> ''purpose'' \<notin> fst ` set (build_payload lib c))
   \<and> (truthy_list (regions' c) \<longrightarrow> ''region'' \<notin> fst ` set (build_payload lib c))"
  by (simp add: purpose_key region_key)

theorem legacy_keys_witness:
  "''purpose'' \<in> fst ` set (build_payload test_lib
        (default_call\<lparr>purpose' := Some (ascii ''housing''), regions' := Some [4],
                       region' := Some (ascii ''south'')\<rparr>))
   \<and> ''region'' \<notin> fst ` set (build_payload test_lib
        (default_call\<lparr>purpose' := Some (ascii ''housing''), regions' := Some [4],
                       region' := Some (ascii ''south'')\<rparr>))"
  using legacy_keys [of test_lib
        "default_call\<lparr>purpose' := Some (ascii ''housing''), regions' := Some [4],
                       region' := Some (ascii ''south'')\<rparr>"]
  by (simp add: default_call_def ascii_def)

lemma truthy_absent [simp]:
  "truthy_str (absent_str v) = truthy_str v"
  "truthy_list (absent_list w) = truthy_list w"
  "truthy_int (absent_int k) = truthy_int k"
  by (simp_all add: absent_str_def absent_list_def absent_int_def)

lemma value_absent [simp]:
  "truthy_str v \<Longrightarrow> absent_str v = v"
  "truthy_list w \<Longrightarrow> absent_list w = w"
  "truthy_int k \<Longrightarrow> absent_int k = k"
  by (auto simp: absent_str_def absent_list_def absent_int_def)

lemma put_if_cong:
  "b = b' \<Longrightarrow> (b' \<Longrightarrow> v = v') \<Longrightarrow> put_if b k v = put_if b' k v'"
  by (simp add: put_if_def)

lemma payload_absent_if_falsy: "build_payload lib (absent_if_falsy c) = build_payload lib c"
  by (simp add: build_payload_def absent_if_falsy_def cong: put_if_cong if_cong)

text \<open>
  Claim C9. The query builder builds the same payload whether a filter holds \<open>0\<close>, the
  empty string or the empty list, or holds \<open>None\<close>; a filter with such a value adds no key.
  With \<open>kod_yeshuv = 0\<close> and a non-empty settlement name the payload holds \<open>Yishuv\<close> with
  the name and no \<open>KodYeshuv\<close>, and \<open>tender_types = []\<close> adds no \<open>SugMichraz\<close>.
\<close>

theorem falsy_is_absent:
  "build_payload lib (absent_if_falsy c) = build_payload lib c
   \<and> (\<not> truthy_str (tender_number' c) \<longrightarrow> ''MisMichraz'' \<notin> fst ` set (build_payload lib c))
   \<and> (\<not> truthy_list (tender_types' c) \<longrightarrow> ''SugMichraz'' \<notin> fst ` set (build_payload lib c))
   \<and> (\<not> truthy_int (kod_yeshuv' c) \<longrightarrow> ''KodYeshuv'' \<notin> fst ` set (build_payload lib c))
   \<and> (\<not> truthy_str (settlement' c) \<longrightarrow> ''Yishuv'' \<notin> fst ` set (build_payload lib c))
   \<and> (\<not> truthy_str (neighborhood' c) \<longrightarrow> ''Shchuna'' \<notin> fst ` set (build_payload lib c))
   \<and> (\<not> truthy_list (tender_purposes' c)
        \<longrightarrow> ''YeudMichraz'' \<notin> fst ` set (build_payload lib c))
   \<and> (\<not> truthy_list (regions' c) \<longrightarrow> ''Merchav'' \<notin> fst ` set (build_payload lib c))
   \<and> (\<not> truthy_list (tender_statuses' c)
        \<longrightarrow> ''StatusMichraz'' \<notin> fst ` set (build_payload lib c))
   \<and> (\<not> truthy_list (priority_populations' c)
        \<longrightarrow> ''PriorityPopulations'' \<notin> fst ` set (build_payload lib c))
   \<and> (\<not> truthy_str (purpose' c) \<longrightarrow> ''purpose'' \<notin> fst ` set (build_payload lib c))
   \<and> (\<not> truthy_str (region' c) \<longrightarrow> ''region'' \<notin> fst ` set (build_payload lib c))
   \<and> (\<not> truthy_str (sort_by' c) \<longrightarrow> ''sortBy'' \<notin> fst ` set (build_payload lib c))
   \<and> (\<not> truthy_str (sort_order' c) \<longrightarrow> ''sortOrder'' \<notin> fst ` set (build_payload lib c))
   \<and> (kod_yeshuv' c = Some 0 \<and> settlement' c = Some name \<and> name \<noteq> []
        \<longrightarrow> map_of (build_payload lib c) ''Yishuv'' = Some (JStr name)
            \<and> ''KodYeshuv'' \<notin> fst ` set (build_payload lib c))
   \<and> (tender_types' c = Some [] \<longrightarrow> ''SugMichraz'' \<notin> fst ` set (build_payload lib c))"
proof (intro conjI impI)
  show "build_payload lib (absent_if_falsy c) = build_payload lib c"
    by (rule payload_absent_if_falsy)
  show "''MisMichraz'' \<notin> fst ` set (build_payload lib c)" if "\<not> truthy_str (tender_number' c)"
    using that by (simp add: build_payload_def image_Un)
  show "''SugMichraz'' \<notin> fst ` set (build_payload lib c)" if "\<not> truthy_list (tender_types' c)"
    using that by (simp add: build_payload_def image_Un)
  show "''KodYeshuv'' \<notin> fst ` set (build_payload lib c)" if "\<not> truthy_int (kod_yeshuv' c)"
    using that by (simp add: kod_key)
  show "''Yishuv'' \<notin> fst ` set (build_payload lib c)" if "\<not> truthy_str (settlement' c)"
    using that by (simp add: yishuv_key)
  show "''Shchuna'' \<notin> fst ` set (build_payload lib c)" if "\<not> truthy_str (neighborhood' c)"
    using that by (simp add: build_payload_def image_Un)
  show "''YeudMichraz'' \<notin> fst ` set (build_payload lib c)"
    if "\<not> truthy_list (tender_purposes' c)"
    using that by (simp add: build_payload_def image_Un)
  show "''Merchav'' \<notin> fst ` set (build_payload lib c)" if "\<not> truthy_list (regions' c)"
    using that by (simp add: build_payload_def image_Un)
  show "''StatusMichraz'' \<notin> fst ` set (build_payload lib c)"
    if "\<not> truthy_list (tender_statuses' c)"
    using that by (simp add: build_payload_def image_Un)
  show "''PriorityPopulations'' \<notin> fst ` set (build_payload lib c)"
    if "\<not> truthy_list (priority_populations' c)"
    using that by (simp add: build_payload_def image_Un)
  show "''purpose'' \<notin> fst ` set (build_payload lib c)" if "\<not> truthy_str (purpose' c)"
    using that by (simp add: purpose_key)
  show "''region'' \<notin> fst ` set (build_payload lib c)" if "\<not> truthy_str (region' c)"
    using that by (simp add: region_key)
  show "''sortBy'' \<notin> fst ` set (build_payload lib c)" if "\<not> truthy_str (sort_by' c)"
    using that by (simp add: build_payload_def image_Un)
  show "''sortOrder'' \<notin> fst ` set (build_payload lib c)" if "\<not> truthy_str (sort_order' c)"
    using that by (simp add: build_payload_def image_Un)
  show "map_of (build_payload lib c) ''Yishuv'' = Some (JStr name)"
    if "kod_yeshuv' c = Some 0 \<and> settlement' c = Some name \<and> name \<noteq> []"
    using that by (simp add: yishuv_value)
  show "''KodYeshuv'' \<notin> fst ` set (build_payload lib c)"
    if "kod_yeshuv' c = Some 0 \<and> settlement' c = Some name \<and> name \<noteq> []"
    using that by (simp add: kod_key)
  show "''SugMichraz'' \<notin> fst ` set (build_payload lib c)" if "tender_types' c = Some []"
    using that by (simp add: build_payload_def image_Un)
qed

theorem falsy_is_absent_witness:
  "build_payload test_lib
     (default_call\<lparr>kod_yeshuv' := Some 0, settlement' := Some tel_aviv, tender_types' := Some [],
                    neighborhood' := Some []\<rparr>)
   = [(''ActiveQuickSearch'', JBool False), (''ActiveMichraz'', JBool False),
      (''Yishuv'', JStr tel_aviv)]
   \<and> build_payload test_lib
     (default_call\<lparr>kod_yeshuv' := None, settlement' := Some tel_aviv, tender_types' := None,
                    neighborhood' := None\<rparr>)
   = [(''ActiveQuickSearch'', JBool False), (''ActiveMichraz'', JBool False),
      (''Yishuv'', JStr tel_aviv)]"
  using falsy_is_absent [of test_lib
     "default_call\<lparr>kod_yeshuv' := Some 0, settlement' := Some tel_aviv, tender_types' := Some [],
                    neighborhood' := Some []\<rparr>" tel_aviv]
  by (simp add: default_call_def build_payload_def put_if_def date_filter_def tel_aviv_def)

subsection \<open>Settlement code and settlement name\<close>

lemma and_then_Inr: "and_then x f = Inr y \<longleftrightarrow> (\<exists>a. x = Inr a \<and> f a = Inr y)"
  by (cases x) simp_all

lemma tool_call_fields:
  assumes "tool_call lib catalog args = Inr c"
  shows "kod_yeshuv' c = final_kod_yeshuv catalog args"
    and "settlement' c = (if \<not> truthy_int (final_kod_yeshuv catalog args)
                          then settlement args else None)"
    and "page_size' c = min (max_results args) 1000"
    and "page_number' c = 1"
  using assms by (auto simp: tool_call_def and_then_Inr)

lemma parse_bound_None [simp]: "parse_bound lib None bound = Inr None"
  by (simp add: parse_bound_def)

lemma tool_call_no_dates:
  assumes "submission_deadline args = None" "publication_date args = None"
    "committee_date args = None" "days_back args = None"
  shows "\<exists>c. tool_call lib catalog args = Inr c"
  using assms by (simp add: tool_call_def legacy_days_back_def)

lemma final_kod_supplied:
  "kod_yeshuv args = Some k \<Longrightarrow> k \<noteq> 0 \<Longrightarrow> final_kod_yeshuv catalog args = Some k"
  by (simp add: final_kod_yeshuv_def split: option.splits)

lemma final_kod_resolved:
  assumes "\<not> truthy_int (kod_yeshuv args)" "settlement args = Some name" "name \<noteq> []"
    "convert_settlement_name_to_code catalog name = Some k"
  shows "final_kod_yeshuv catalog args = Some k"
  using assms
  by (auto simp: final_kod_yeshuv_def convert_settlement_name_to_code_def split: option.splits)

lemma payload_with_code:
  assumes "tool_payload lib catalog args = Inr p" "final_kod_yeshuv catalog args = Some k"
    "k \<noteq> 0"
  shows "map_of p ''KodYeshuv'' = Some (JInt k) \<and> ''Yishuv'' \<notin> fst ` set p"
proof -
  from assms(1) obtain c where c: "tool_call lib catalog args = Inr c"
    and p: "p = build_payload lib c"
    by (auto simp: tool_payload_def and_then_Inr)
  from tool_call_fields(1) [OF c] assms(2,3) have "kod_yeshuv' c = Some k" "truthy_int (kod_yeshuv' c)"
    by simp_all
  then show ?thesis
    unfolding p by (simp add: kod_value yishuv_key)
qed

text \<open>
  Claim C1. Whenever the search tool sends a request and a settlement code is available,
  either given as \<open>kod_yeshuv\<close> or found for the given settlement name by the exact
  lookup, the payload holds \<open>KodYeshuv\<close> with that code and holds no \<open>Yishuv\<close>. A code
  is a non-zero integer here: the catalog's codes are positive, and the value \<open>0\<close> is
  read as no code at all. No payload of the query builder, and so none the tool sends,
  holds both keys. With the name \<^verbatim>\<open>tel aviv\<close> in Hebrew letters, no code given and a
  catalog in which the name has code 5000, the tool sends a payload with \<open>KodYeshuv\<close> 5000
  and no \<open>Yishuv\<close>.
\<close>

theorem code_precedes_name:
  "(tool_payload lib catalog args = Inr p \<and> k \<noteq> 0
      \<and> (kod_yeshuv args = Some k
          \<or> (\<not> truthy_int (kod_yeshuv args) \<and> settlement args = Some name \<and> name \<noteq> []
              \<and> convert_settlement_name_to_code catalog name = Some k))
      \<longrightarrow> map_of p ''KodYeshuv'' = Some (JInt k) \<and> ''Yishuv'' \<notin> fst ` set p)
   \<and> \<not> (''KodYeshuv'' \<in> fst ` set (build_payload lib c)
          \<and> ''Yishuv'' \<in> fst ` set (build_payload lib c))
   \<and> (tool_payload lib catalog args = Inr p
        \<longrightarrow> \<not> (''KodYeshuv'' \<in> fst ` set p \<and> ''Yishuv'' \<in> fst ` set p))
   \<and> (settlement args = Some tel_aviv \<and> kod_yeshuv args = None
        \<and> convert_settlement_name_to_code catalog tel_aviv = Some 5000
        \<and> submission_deadline args = None \<and> publication_date args = None
        \<and> committee_date args = None \<and> days_back args = None
        \<longrightarrow> (\<exists>q. tool_payload lib catalog args = Inr q
                  \<and> map_of q ''KodYeshuv'' = Some (JInt 5000) \<and> ''Yishuv'' \<notin> fst ` set q))"
proof (intro conjI impI)
  assume h: "tool_payload lib catalog args = Inr p \<and> k \<noteq> 0
      \<and> (kod_yeshuv args = Some k
          \<or> (\<not> truthy_int (kod_yeshuv args) \<and> settlement args = Some name \<and> name \<noteq> []
              \<and> convert_settlement_name_to_code catalog name = Some k))"
  then have "final_kod_yeshuv catalog args = Some k"
    using final_kod_supplied [of args k catalog] final_kod_resolved [of args name catalog k]
    by blast
  with h have r: "map_of p ''KodYeshuv'' = Some (JInt k) \<and> ''Yishuv'' \<notin> fst ` set p"
    using payload_with_code [of lib catalog args p k] by blast
  from r show "map_of p ''KodYeshuv'' = Some (JInt k)" ..
  from r show "''Yishuv'' \<notin> fst ` set p" ..
next
  show "\<not> (''KodYeshuv'' \<in> fst ` set (build_payload lib c)
          \<and> ''Yishuv'' \<in> fst ` set (build_payload lib c))"
    by (simp add: kod_key yishuv_key)
next
  assume "tool_payload lib catalog args = Inr p"
  then obtain c' where "p = build_payload lib c'"
    by (auto simp: tool_payload_def and_then_Inr)
  then show "\<not> (''KodYeshuv'' \<in> fst ` set p \<and> ''Yishuv'' \<in> fst ` set p)"
    by (simp add: kod_key yishuv_key)
next
  assume h: "settlement args = Some tel_aviv \<and> kod_yeshuv args = None
        \<and> convert_settlement_name_to_code catalog tel_aviv = Some 5000
        \<and> submission_deadline args = None \<and> publication_date args = None
        \<and> committee_date args = None \<and> days_back args = None"
  then obtain c' where "tool_call lib catalog args = Inr c'"
    using tool_call_no_dates [of args lib catalog] by blast
  then have q: "tool_payload lib catalog args = Inr (build_payload lib c')"
    by (simp add: tool_payload_def)
  from h have "final_kod_yeshuv catalog args = Some 5000"
    using final_kod_resolved [of args tel_aviv catalog 5000] by (simp add: tel_aviv_def)
  with q show "\<exists>q. tool_payload lib catalog args = Inr q
                  \<and> map_of q ''KodYeshuv'' = Some (JInt 5000) \<and> ''Yishuv'' \<notin> fst ` set q"
    using payload_with_code [of lib catalog args "build_payload lib c'" 5000] by simp
qed

theorem code_precedes_name_witness:
  "tool_payload test_lib test_catalog (default_args\<lparr>settlement := Some tel_aviv\<rparr>)
     = Inr [(''ActiveQuickSearch'', JBool False), (''ActiveMichraz'', JBool False),
            (''KodYeshuv'', JInt 5000)]
   \<and> tool_payload test_lib test_catalog
       (default_args\<lparr>settlement := Some haifa, kod_yeshuv := Some 5000\<rparr>)
     = Inr [(''ActiveQuickSearch'', JBool False), (''ActiveMichraz'', JBool False),
            (''KodYeshuv'', JInt 5000)]"
  using code_precedes_name [of test_lib test_catalog "default_args\<lparr>settlement := Some tel_aviv\<rparr>"
          "[(''ActiveQuickSearch'', JBool False), (''ActiveMichraz'', JBool False),
            (''KodYeshuv'', JInt 5000)]" 5000 tel_aviv default_call]
  by (simp add: tool_payload_def tool_call_def default_args_def test_catalog_def
        final_kod_yeshuv_def py_strip_def is_space_def tel_aviv_def haifa_def
        legacy_days_back_def build_payload_def put_if_def date_filter_def)

subsection \<open>Settlement lookup\<close>

lemma starts_with_iff: "starts_with hay needle \<longleftrightarrow> (\<exists>suf. hay = needle @ suf)"
  by (induction hay needle rule: starts_with.induct) auto

lemma py_in_iff: "py_in needle hay \<longleftrightarrow> (\<exists>pre suf. hay = pre @ needle @ suf)"
proof (induction hay)
  case Nil
  then show ?case by auto
next
  case (Cons h hay)
  have "(\<exists>pre suf. h # hay = pre @ needle @ suf)
          \<longleftrightarrow> (\<exists>suf. h # hay = needle @ suf) \<or> (\<exists>pre suf. hay = pre @ needle @ suf)"
  proof
    assume "\<exists>pre suf. h # hay = pre @ needle @ suf"
    then obtain pre suf where e: "h # hay = pre @ needle @ suf" by blast
    show "(\<exists>suf. h # hay = needle @ suf) \<or> (\<exists>pre suf. hay = pre @ needle @ suf)"
    proof (cases pre)
      case Nil
      with e show ?thesis by auto
    next
      case (Cons a pre')
      with e have "hay = pre' @ needle @ suf" by simp
      then show ?thesis by blast
    qed
  next
    assume "(\<exists>suf. h # hay = needle @ suf) \<or> (\<exists>pre suf. hay = pre @ needle @ suf)"
    then show "\<exists>pre suf. h # hay = pre @ needle @ suf"
    proof
      assume "\<exists>suf. h # hay = needle @ suf"
      then obtain suf where "h # hay = [] @ needle @ suf" by auto
      then show ?thesis by blast
    next
      assume "\<exists>pre suf. hay = pre @ needle @ suf"
      then obtain pre suf where "h # hay = (h # pre) @ needle @ suf" by auto
      then show ?thesis by blast
    qed
  qed
  with Cons show ?case by (simp add: starts_with_iff)
qed

lemma find_exact_None: "find_exact catalog name = None \<longleftrightarrow> (\<forall>s \<in> set catalog. name_hebrew s \<noteq> name)"
  by (induction catalog) auto

lemma find_exact_first:
  assumes "\<forall>t \<in> set pre. name_hebrew t \<noteq> name" "name_hebrew s = name"
  shows "find_exact (pre @ s # post) name = Some s"
  using assms by (induction pre) auto

lemma collect_partial_filter:
  "collect_partial lw catalog q acc
     = acc @ map partial_entry
         (filter (\<lambda>s. py_in q (lw (name_hebrew s)) \<or> py_in (lw (name_hebrew s)) q) catalog)"
  by (induction catalog arbitrary: acc) (simp_all add: Let_def)

text \<open>
  Claim C5. When no catalog entry has the trimmed query as its name, the lookup collects,
  in catalog order, the entries whose lower-cased name contains the lower-cased query or
  is contained in it, and, there being any, answers with the first ten of them at most
  and \<open>match_type\<close> \<open>partial\<close>; when there is none the answer is the failure dictionary.
  When an entry has the trimmed query as its name, the answer is the code of the first
  such entry with \<open>match_type\<close> \<open>exact\<close>, whatever the partial matches would be.
  Containment is that of Python: one string occurs inside the other as a contiguous run.
\<close>

theorem resolver_partial_and_exact:
  "((\<forall>s \<in> set catalog. name_hebrew s \<noteq> py_strip query)
      \<and> filter (\<lambda>s. py_in (lower lib (py_strip query)) (lower lib (name_hebrew s))
                     \<or> py_in (lower lib (name_hebrew s)) (lower lib (py_strip query))) catalog
          \<noteq> []
      \<longrightarrow> get_kod_yeshuv lib catalog query =
            JObj [(''success'', JBool True),
                  (''searched_name'', JStr (py_strip query)),
                  (''exact_match'', JBool False),
                  (''partial_matches'', JList (map partial_entry (take 10
                      (filter (\<lambda>s. py_in (lower lib (py_strip query)) (lower lib (name_hebrew s))
                                   \<or> py_in (lower lib (name_hebrew s)) (lower lib (py_strip query)))
                         catalog)))),
                  (''match_type'', JStr (ascii ''partial''))])
   \<and> ((\<forall>s \<in> set catalog. name_hebrew s \<noteq> py_strip query)
      \<and> filter (\<lambda>s. py_in (lower lib (py_strip query)) (lower lib (name_hebrew s))
                     \<or> py_in (lower lib (name_hebrew s)) (lower lib (py_strip query))) catalog
          = []
      \<longrightarrow> py_get (get_kod_yeshuv lib catalog query) ''success'' = Some (JBool False)
          \<and> py_get (get_kod_yeshuv lib catalog query) ''match_type'' = None)
   \<and> (catalog = pre @ s # post \<and> name_hebrew s = py_strip query
        \<and> (\<forall>t \<in> set pre. name_hebrew t \<noteq> py_strip query)
      \<longrightarrow> get_kod_yeshuv lib catalog query =
            JObj [(''success'', JBool True),
                  (''settlement_name'', JStr (py_strip query)),
                  (''kod_yeshuv'', JInt (kod_yeshuv_s s)),
                  (''match_type'', JStr (ascii ''exact''))])
   \<and> (py_in (a :: pystr) b \<longleftrightarrow> (\<exists>pre suf. b = pre @ a @ suf))"
proof (intro conjI impI)
  let ?ms = "filter (\<lambda>s. py_in (lower lib (py_strip query)) (lower lib (name_hebrew s))
                     \<or> py_in (lower lib (name_hebrew s)) (lower lib (py_strip query))) catalog"
  assume h: "(\<forall>s \<in> set catalog. name_hebrew s \<noteq> py_strip query) \<and> ?ms \<noteq> []"
  then have none: "find_exact catalog (py_strip query) = None"
    by (simp add: find_exact_None)
  have coll: "collect_partial (lower lib) catalog (lower lib (py_strip query)) []
                = map partial_entry ?ms"
    by (simp add: collect_partial_filter)
  have cut: "py_slice (map partial_entry ?ms) 0 10 = map partial_entry (take 10 ?ms)"
    by (simp add: py_slice_prefix take_map)
  from h none show "get_kod_yeshuv lib catalog query =
            JObj [(''success'', JBool True),
                  (''searched_name'', JStr (py_strip query)),
                  (''exact_match'', JBool False),
                  (''partial_matches'', JList (map partial_entry (take 10 ?ms))),
                  (''match_type'', JStr (ascii ''partial''))]"
    unfolding get_kod_yeshuv_def Let_def coll cut by simp
next
  let ?ms = "filter (\<lambda>s. py_in (lower lib (py_strip query)) (lower lib (name_hebrew s))
                     \<or> py_in (lower lib (name_hebrew s)) (lower lib (py_strip query))) catalog"
  assume h: "(\<forall>s \<in> set catalog. name_hebrew s \<noteq> py_strip query) \<and> ?ms = []"
  then have none: "find_exact catalog (py_strip query) = None"
    by (simp add: find_exact_None)
  from h have coll: "collect_partial (lower lib) catalog (lower lib (py_strip query)) [] = []"
    by (simp add: collect_partial_filter)
  from none coll show "py_get (get_kod_yeshuv lib catalog query) ''success'' = Some (JBool False)"
    by (simp add: get_kod_yeshuv_def Let_def)
  from none coll show "py_get (get_kod_yeshuv lib catalog query) ''match_type'' = None"
    by (simp add: get_kod_yeshuv_def Let_def)
next
  assume "catalog = pre @ s # post \<and> name_hebrew s = py_strip query
        \<and> (\<forall>t \<in> set pre. name_hebrew t \<noteq> py_strip query)"
  then have "find_exact catalog (py_strip query) = Some s"
    by (simp add: find_exact_first)
  then show "get_kod_yeshuv lib catalog query =
            JObj [(''success'', JBool True),
                  (''settlement_name'', JStr (py_strip query)),
                  (''kod_yeshuv'', JInt (kod_yeshuv_s s)),
                  (''match_type'', JStr (ascii ''exact''))]"
    by (simp add: get_kod_yeshuv_def Let_def)
next
  show "py_in a b \<longleftrightarrow> (\<exists>pre suf. b = pre @ a @ suf)"
    by (rule py_in_iff)
qed

theorem resolver_partial_and_exact_witness:
  "get_kod_yeshuv test_lib test_catalog [1514, 1500] =
     JObj [(''success'', JBool True),
           (''searched_name'', JStr [1514, 1500]),
           (''exact_match'', JBool False),
           (''partial_matches'',
              JList [JObj [(''settlement_name'', JStr tel_aviv), (''kod_yeshuv'', JInt 5000),
                           (''similarity'', JStr (ascii ''partial''))]]),
           (''match_type'', JStr (ascii ''partial''))]
   \<and> get_kod_yeshuv test_lib test_catalog (32 # tel_aviv @ [32]) =
     JObj [(''success'', JBool True),
           (''settlement_name'', JStr tel_aviv),
           (''kod_yeshuv'', JInt 5000),
           (''match_type'', JStr (ascii ''exact''))]
   \<and> get_kod_yeshuv test_lib twelve_catalog [] =
     JObj [(''success'', JBool True),
           (''searched_name'', JStr []),
           (''exact_match'', JBool False),
           (''partial_matches'', JList (map partial_entry (take 10 twelve_catalog))),
           (''match_type'', JStr (ascii ''partial''))]"
  using resolver_partial_and_exact [of test_catalog "[1514, 1500]" test_lib "[]"
      "\<lparr>kod_yeshuv_s = 5000, name_hebrew = tel_aviv\<rparr>" "[]" "[]" "[]"]
    resolver_partial_and_exact [of test_catalog "32 # tel_aviv @ [32]" test_lib
      "[\<lparr>kod_yeshuv_s = 4000, name_hebrew = haifa\<rparr>]"
      "\<lparr>kod_yeshuv_s = 5000, name_hebrew = tel_aviv\<rparr>"
      "[\<lparr>kod_yeshuv_s = 3000, name_hebrew = [1497, 1512, 1493, 1513, 1500, 1497, 1501]\<rparr>]"
      "[]" "[]"]
    resolver_partial_and_exact [of twelve_catalog "[]" test_lib "[]"
      "\<lparr>kod_yeshuv_s = 5000, name_hebrew = tel_aviv\<rparr>" "[]" "[]" "[]"]
  by (simp add: test_catalog_def twelve_catalog_def test_lib_def tel_aviv_def haifa_def
        py_strip_def is_space_def partial_entry_def get_kod_yeshuv_def Let_def
        py_slice_def clamp_index_def)

text \<open>
  Claim C7. When the trimmed query is the name of no catalog entry and no entry matches
  it partially, the lookup returns the dictionary with \<open>success\<close> false, an error message
  that quotes the query, the searched name and a suggestion. The lookup is a total
  function into dictionaries: it has no way to raise.
\<close>

theorem no_match_is_failure_envelope:
  "(\<forall>s \<in> set catalog. name_hebrew s \<noteq> py_strip query
        \<and> \<not> py_in (lower lib (py_strip query)) (lower lib (name_hebrew s))
        \<and> \<not> py_in (lower lib (name_hebrew s)) (lower lib (py_strip query)))
   \<longrightarrow> get_kod_yeshuv lib catalog query =
         JObj [(''success'', JBool False),
               (''error'', JStr (ascii ''No settlement found matching ''
                                  @ [39] @ py_strip query @ [39])),
               (''searched_name'', JStr (py_strip query)),
               (''suggestion'', JStr (ascii
                  ''Try using the exact Hebrew name or check the settlement name spelling''))]"
proof
  assume h: "\<forall>s \<in> set catalog. name_hebrew s \<noteq> py_strip query
        \<and> \<not> py_in (lower lib (py_strip query)) (lower lib (name_hebrew s))
        \<and> \<not> py_in (lower lib (name_hebrew s)) (lower lib (py_strip query))"
  then have none: "find_exact catalog (py_strip query) = None"
    by (simp add: find_exact_None)
  from h have "filter (\<lambda>s. py_in (lower lib (py_strip query)) (lower lib (name_hebrew s))
                     \<or> py_in (lower lib (name_hebrew s)) (lower lib (py_strip query))) catalog = []"
    by (simp add: filter_empty_conv)
  then have "collect_partial (lower lib) catalog (lower lib (py_strip query)) [] = []"
    by (simp add: collect_partial_filter)
  with none show "get_kod_yeshuv lib catalog query =
         JObj [(''success'', JBool False),
               (''error'', JStr (ascii ''No settlement found matching ''
                                  @ [39] @ py_strip query @ [39])),
               (''searched_name'', JStr (py_strip query)),
               (''suggestion'', JStr (ascii
                  ''Try using the exact Hebrew name or check the settlement name spelling''))]"
    by (simp add: get_kod_yeshuv_def Let_def)
qed

theorem no_match_is_failure_envelope_witness:
  "py_get (get_kod_yeshuv test_lib test_catalog (ascii ''xyz'')) ''success'' = Some (JBool False)
   \<and> py_get (get_kod_yeshuv test_lib test_catalog (ascii ''xyz'')) ''error''
       = Some (JStr (ascii ''No settlement found matching '' @ [39] @ ascii ''xyz'' @ [39]))
   \<and> py_get (get_kod_yeshuv test_lib test_catalog (ascii ''xyz'')) ''suggestion''
       = Some (JStr (ascii
            ''Try using the exact Hebrew name or check the settlement name spelling''))"
  using no_match_is_failure_envelope [of test_catalog "ascii ''xyz''" test_lib]
  by (simp add: test_catalog_def test_lib_def tel_aviv_def haifa_def
        py_strip_def is_space_def ascii_def get_kod_yeshuv_def Let_def)

subsection \<open>Tender details\<close>

text \<open>
  Claim C6. When the detail endpoint answers with a decoded body, whatever the body says,
  the tool returns \<open>success\<close> true, the tender id and the body unchanged under
  \<open>details\<close>; a body that carries a not-found message is not turned into a failure.
\<close>

theorem details_passed_through:
  "get michraz_id = Inr payload
   \<longrightarrow> get_tender_details_tool lib get michraz_id =
         JObj [(''success'', JBool True),
               (''tender_id'', JInt michraz_id),
               (''details'', payload)]"
  by (simp add: get_tender_details_tool_def get_tender_details_def)

theorem details_passed_through_witness:
  "get_tender_details_tool test_lib not_found_endpoint (- 1) =
     JObj [(''success'', JBool True),
           (''tender_id'', JInt (- 1)),
           (''details'', not_found_payload)]"
  using details_passed_through [of not_found_endpoint "- 1" not_found_payload test_lib]
  by (simp add: not_found_endpoint_def)

subsection \<open>The search tool\<close>

lemma py_slice_from_start: "py_slice xs 0 n = take (clamp_index (length xs) n) xs"
  by (simp add: py_slice_def clamp_index_def)

lemma length_py_slice_prefix: "0 \<le> n \<Longrightarrow> int (length (py_slice xs 0 n)) \<le> n"
  by (simp add: py_slice_prefix)

lemma length_py_slice_le: "length (py_slice xs 0 n) \<le> length xs"
  by (simp add: py_slice_from_start)

lemma getslice_twice_len:
  assumes "py_getslice v 0 ps = Inr page" "py_getslice page 0 m = Inr tlist" "0 \<le> ps" "0 \<le> m"
  shows "\<exists>k. py_len tlist = Inr k \<and> k \<le> min m ps"
proof (cases v)
  case (JList xs)
  with assms(1,2) have "tlist = JList (py_slice (py_slice xs 0 ps) 0 m)" by auto
  moreover have "int (length (py_slice (py_slice xs 0 ps) 0 m)) \<le> m"
    using assms(4) by (rule length_py_slice_prefix)
  moreover have "int (length (py_slice (py_slice xs 0 ps) 0 m)) \<le> ps"
    using length_py_slice_le [of "py_slice xs 0 ps" m] length_py_slice_prefix [OF assms(3), of xs]
    by linarith
  ultimately show ?thesis by simp
next
  case (JStr str)
  with assms(1,2) have "tlist = JStr (py_slice (py_slice str 0 ps) 0 m)" by auto
  moreover have "int (length (py_slice (py_slice str 0 ps) 0 m)) \<le> m"
    using assms(4) by (rule length_py_slice_prefix)
  moreover have "int (length (py_slice (py_slice str 0 ps) 0 m)) \<le> ps"
    using length_py_slice_le [of "py_slice str 0 ps" m] length_py_slice_prefix [OF assms(3), of str]
    by linarith
  ultimately show ?thesis by simp
qed (use assms in simp_all)

lemma first_page_bound:
  assumes "paginate data ps 1 = Inr results" "tender_list_of results m = Inr tlist"
    "0 \<le> ps" "0 \<le> m"
  shows "\<exists>k. py_len tlist = Inr k \<and> k \<le> min m ps"
proof (cases data)
  case (JList xs)
  with assms(1) have "py_getslice data 0 ps = Inr results" by simp
  moreover from JList assms(1,2) have "py_getslice results 0 m = Inr tlist" by auto
  ultimately show ?thesis using assms(3,4) by (rule getslice_twice_len)
next
  case (JObj kvs)
  show ?thesis
  proof (cases "map_of kvs ''results''")
    case None
    with JObj assms(1) have "results = JObj kvs" by simp
    with None assms(2) show ?thesis by simp
  next
    case (Some v)
    with JObj assms(1) obtain page where page: "py_getslice v 0 ps = Inr page"
      and r: "results = JObj (dict_set ''results'' page kvs)"
      by (auto simp: and_then_Inr)
    from r assms(2) have "py_getslice page 0 m = Inr tlist"
      by (simp add: map_of_dict_set_same)
    with page show ?thesis using assms(3,4) by (rule getslice_twice_len)
  qed
next
  case (JStr str)
  with assms(1) have "results = JStr str" by (simp split: if_splits)
  with assms(2) show ?thesis by simp
qed (use assms in simp_all)

lemma search_tenders_Inr:
  assumes "search_tenders lib post c = Inr results"
  shows "\<exists>data. post (build_payload lib c) = Inr data
           \<and> paginate data (page_size' c) (page_number' c) = Inr results"
  using assms by (auto simp: search_tenders_def split: sum.splits exn.splits)

lemma tool_envelope:
  "(\<exists>c results tlist count.
       tool_call lib catalog args = Inr c
     \<and> search_tenders lib post c = Inr results
     \<and> tender_list_of results (max_results args) = Inr tlist
     \<and> py_len tlist = Inr count
     \<and> search_tenders_tool lib catalog post args =
         JObj [(''success'', JBool True), (''count'', JInt count), (''tenders'', tlist),
               (''search_summary'', search_summary lib catalog args)])
   \<or> (\<exists>e. search_tenders_tool lib catalog post args =
         JObj [(''success'', JBool False), (''error'', JStr (str_exn lib e)),
               (''search_parameters'', model_dump lib args)])"
proof (cases "tool_call lib catalog args")
  case (Inl e)
  then show ?thesis by (auto simp: search_tenders_tool_def)
next
  case c: (Inr c)
  show ?thesis
  proof (cases "search_tenders lib post c")
    case (Inl e)
    with c show ?thesis by (auto simp: search_tenders_tool_def)
  next
    case r: (Inr results)
    show ?thesis
    proof (cases "tender_list_of results (max_results args)")
      case (Inl e)
      with c r show ?thesis by (auto simp: search_tenders_tool_def)
    next
      case t: (Inr tlist)
      show ?thesis
      proof (cases "py_len tlist")
        case (Inl e)
        with c r t show ?thesis by (auto simp: search_tenders_tool_def)
      next
        case (Inr count)
        with c r t show ?thesis by (auto simp: search_tenders_tool_def)
      qed
    qed
  qed
qed

lemma tool_on_list:
  assumes "tool_call lib catalog args = Inr c" "post (build_payload lib c) = Inr (JList seq)"
  shows "search_tenders_tool lib catalog post args =
           JObj [(''success'', JBool True),
                 (''count'', JInt (int (length
                     (py_slice (py_slice seq 0 (min (max_results args) 1000)) 0 (max_results args))))),
                 (''tenders'', JList
                     (py_slice (py_slice seq 0 (min (max_results args) 1000)) 0 (max_results args))),
                 (''search_summary'', search_summary lib catalog args)]"
  using assms tool_call_fields(3,4) [OF assms(1)]
  by (simp add: search_tenders_tool_def search_tenders_def)

text \<open>
  Claim C10, as amended. For a call of the search tool with \<open>max_results \<ge> 0\<close>: a
  successful answer holds a tender list whose length is its \<open>count\<close> and is at most
  \<open>min max_results 1000\<close>, and any other answer is the failure dictionary, without
  tenders. The tool asks the client for page 1 with page size \<open>min max_results 1000\<close>,
  and when upstream answers with a list the tenders are its first \<open>min max_results 1000\<close>
  records, so never more than 1000.
\<close>

theorem tenders_bounded_by_max_results:
  "0 \<le> max_results args \<longrightarrow>
     (py_get (search_tenders_tool lib catalog post args) ''success'' = Some (JBool True)
        \<longrightarrow> (\<exists>tlist n.
               py_get (search_tenders_tool lib catalog post args) ''tenders'' = Some tlist
             \<and> py_get (search_tenders_tool lib catalog post args) ''count'' = Some (JInt n)
             \<and> py_len tlist = Inr n
             \<and> n \<le> min (max_results args) 1000))
   \<and> (py_get (search_tenders_tool lib catalog post args) ''success'' \<noteq> Some (JBool True)
        \<longrightarrow> py_get (search_tenders_tool lib catalog post args) ''success'' = Some (JBool False)
           \<and> py_get (search_tenders_tool lib catalog post args) ''tenders'' = None)
   \<and> (tool_call lib catalog args = Inr c
        \<longrightarrow> page_size' c = min (max_results args) 1000 \<and> page_number' c = 1)
   \<and> (tool_call lib catalog args = Inr c \<and> post (build_payload lib c) = Inr (JList seq)
        \<longrightarrow> py_get (search_tenders_tool lib catalog post args) ''tenders''
              = Some (JList (take (nat (min (max_results args) 1000)) seq)))"
proof
  assume m: "0 \<le> max_results args"
  let ?r = "search_tenders_tool lib catalog post args"
  have a: "\<exists>tlist n. py_get ?r ''tenders'' = Some tlist \<and> py_get ?r ''count'' = Some (JInt n)
             \<and> py_len tlist = Inr n \<and> n \<le> min (max_results args) 1000"
    if s: "py_get ?r ''success'' = Some (JBool True)"
  proof -
    from tool_envelope [of lib catalog args post] s
    obtain c' results tlist count where c': "tool_call lib catalog args = Inr c'"
      and r: "search_tenders lib post c' = Inr results"
      and t: "tender_list_of results (max_results args) = Inr tlist"
      and l: "py_len tlist = Inr count"
      and e: "?r = JObj [(''success'', JBool True), (''count'', JInt count), (''tenders'', tlist),
               (''search_summary'', search_summary lib catalog args)]"
      by auto
    from search_tenders_Inr [OF r] tool_call_fields(3,4) [OF c']
    obtain data where "paginate data (min (max_results args) 1000) 1 = Inr results"
      by auto
    from first_page_bound [OF this t] m l
    have "count \<le> min (max_results args) (min (max_results args) 1000)" by auto
    then have "count \<le> min (max_results args) 1000" by simp
    with e l show ?thesis by simp
  qed
  have b: "py_get ?r ''success'' = Some (JBool False) \<and> py_get ?r ''tenders'' = None"
    if "py_get ?r ''success'' \<noteq> Some (JBool True)"
    using tool_envelope [of lib catalog args post] that by auto
  have c: "page_size' c = min (max_results args) 1000 \<and> page_number' c = 1"
    if "tool_call lib catalog args = Inr c"
    using tool_call_fields(3,4) [OF that] by simp
  have d: "py_get ?r ''tenders'' = Some (JList (take (nat (min (max_results args) 1000)) seq))"
    if "tool_call lib catalog args = Inr c \<and> post (build_payload lib c) = Inr (JList seq)"
  proof -
    from that have "py_get ?r ''tenders'' = Some (JList
        (py_slice (py_slice seq 0 (min (max_results args) 1000)) 0 (max_results args)))"
      by (simp add: tool_on_list)
    moreover have "py_slice (py_slice seq 0 (min (max_results args) 1000)) 0 (max_results args)
        = take (nat (min (max_results args) 1000)) seq"
    proof -
      from m have "py_slice seq 0 (min (max_results args) 1000)
                     = take (nat (min (max_results args) 1000)) seq"
        by (simp add: py_slice_prefix)
      moreover from m have "py_slice (take (nat (min (max_results args) 1000)) seq) 0 (max_results args)
                     = take (nat (max_results args)) (take (nat (min (max_results args) 1000)) seq)"
        by (rule py_slice_prefix)
      moreover have "min (nat (max_results args)) (nat (min (max_results args) 1000))
                     = nat (min (max_results args) 1000)"
        by simp
      ultimately show ?thesis by simp
    qed
    ultimately show ?thesis by simp
  qed
  from a b c d show "(py_get ?r ''success'' = Some (JBool True)
        \<longrightarrow> (\<exists>tlist n. py_get ?r ''tenders'' = Some tlist
             \<and> py_get ?r ''count'' = Some (JInt n)
             \<and> py_len tlist = Inr n
             \<and> n \<le> min (max_results args) 1000))
   \<and> (py_get ?r ''success'' \<noteq> Some (JBool True)
        \<longrightarrow> py_get ?r ''success'' = Some (JBool False) \<and> py_get ?r ''tenders'' = None)
   \<and> (tool_call lib catalog args = Inr c
        \<longrightarrow> page_size' c = min (max_results args) 1000 \<and> page_number' c = 1)
   \<and> (tool_call lib catalog args = Inr c \<and> post (build_payload lib c) = Inr (JList seq)
        \<longrightarrow> py_get ?r ''tenders'' = Some (JList (take (nat (min (max_results args) 1000)) seq)))"
    by blast
qed

theorem tenders_bounded_by_max_results_witness:
  "py_get (search_tenders_tool test_lib test_catalog many_upstream
             (default_args\<lparr>max_results := 2000\<rparr>)) ''tenders''
     = Some (JList (replicate 1000 JNull))
   \<and> py_get (search_tenders_tool test_lib test_catalog twelve_upstream
             (default_args\<lparr>max_results := 5\<rparr>)) ''count''
     = Some (JInt 5)"
  using tenders_bounded_by_max_results [of "default_args\<lparr>max_results := 2000\<rparr>" test_lib
          test_catalog many_upstream "default_call\<lparr>page_size' := 1000\<rparr>"
          "replicate 1200 JNull"]
        tenders_bounded_by_max_results [of "default_args\<lparr>max_results := 5\<rparr>" test_lib
          test_catalog twelve_upstream "default_call\<lparr>page_size' := 5\<rparr>" twelve_records]
  by (auto simp: tool_call_def default_args_def default_call_def many_upstream_def
        twelve_upstream_def twelve_records_def legacy_days_back_def final_kod_yeshuv_def
        tool_on_list py_slice_def clamp_index_def)

text \<open>
  With \<open>max_results = -1\<close> and three records upstream, the page size is \<open>-1\<close>, the
  client's slice drops the last record, the tool's slice drops another, and one tender is
  returned, which is more than \<open>min (-1) 1000\<close>.
\<close>

theorem negative_max_results_counterexample:
  "py_get (search_tenders_tool test_lib test_catalog three_upstream
             (default_args\<lparr>max_results := - 1\<rparr>)) ''success'' = Some (JBool True)
   \<and> py_get (search_tenders_tool test_lib test_catalog three_upstream
             (default_args\<lparr>max_results := - 1\<rparr>)) ''tenders'' = Some (JList [JInt 1])
   \<and> py_get (search_tenders_tool test_lib test_catalog three_upstream
             (default_args\<lparr>max_results := - 1\<rparr>)) ''count'' = Some (JInt 1)
   \<and> \<not> (1 \<le> min (max_results (default_args\<lparr>max_results := - 1\<rparr>)) 1000)"
  by (simp add: search_tenders_tool_def tool_call_def default_args_def three_upstream_def
        legacy_days_back_def final_kod_yeshuv_def search_tenders_def py_slice_def
        clamp_index_def)

lemma drop_ten_of_twelve:
  assumes "length seq = 12"
  shows "drop 10 seq = [seq ! 10, seq ! 11]"
proof -
  from assms have "drop 10 seq = seq ! 10 # drop 11 seq"
    using Cons_nth_drop_Suc [of 10 seq] by simp
  moreover from assms have "drop 11 seq = seq ! 11 # drop 12 seq"
    using Cons_nth_drop_Suc [of 11 seq] by simp
  ultimately show ?thesis using assms by simp
qed

text \<open>
  Claim C2, as amended. On an upstream list of twelve records the client's
  \<^verbatim>\<open>search_tenders\<close> with page size 5 and page number 3 returns the two records at
  positions 11 and 12. The search tool has no page size and no page number among its
  arguments: it always asks for page 1, and when upstream answers with a list it succeeds
  with a prefix of that list, the first \<open>min max_results 1000\<close> records when
  \<open>max_results \<ge> 0\<close>.
\<close>

theorem client_pages_tool_prefix:
  "(length seq = 12 \<and> page_size' c = 5 \<and> page_number' c = 3
      \<and> post (build_payload lib c) = Inr (JList seq)
      \<longrightarrow> search_tenders lib post c = Inr (JList [seq ! 10, seq ! 11]))
   \<and> (tool_call lib catalog args = Inr c' \<and> post (build_payload lib c') = Inr (JList seq)
      \<longrightarrow> page_number' c' = 1
          \<and> py_get (search_tenders_tool lib catalog post args) ''success'' = Some (JBool True)
          \<and> (\<exists>k. py_get (search_tenders_tool lib catalog post args) ''tenders''
                    = Some (JList (take k seq)))
          \<and> (0 \<le> max_results args
               \<longrightarrow> py_get (search_tenders_tool lib catalog post args) ''tenders''
                     = Some (JList (take (nat (min (max_results args) 1000)) seq))))"
proof (intro conjI impI)
  assume h: "length seq = 12 \<and> page_size' c = 5 \<and> page_number' c = 3
      \<and> post (build_payload lib c) = Inr (JList seq)"
  then have "search_tenders lib post c = paginate (JList seq) 5 3"
    by (simp add: search_tenders_def)
  also have "\<dots> = Inr (JList (take (nat 5) (drop (nat ((3 - 1) * 5)) seq)))"
    by (rule paginate_list) simp_all
  also from h have "take (nat 5) (drop (nat ((3 - 1) * 5)) seq) = drop 10 seq"
    by simp
  also from h have "drop 10 seq = [seq ! 10, seq ! 11]"
    by (simp add: drop_ten_of_twelve)
  finally show "search_tenders lib post c = Inr (JList [seq ! 10, seq ! 11])" .
next
  assume h: "tool_call lib catalog args = Inr c' \<and> post (build_payload lib c') = Inr (JList seq)"
  then show "page_number' c' = 1"
    using tool_call_fields(4) [of lib catalog args c'] by simp
  from h have t: "search_tenders_tool lib catalog post args =
           JObj [(''success'', JBool True),
                 (''count'', JInt (int (length
                     (py_slice (py_slice seq 0 (min (max_results args) 1000)) 0 (max_results args))))),
                 (''tenders'', JList
                     (py_slice (py_slice seq 0 (min (max_results args) 1000)) 0 (max_results args))),
                 (''search_summary'', search_summary lib catalog args)]"
    using tool_on_list [of lib catalog args c' post seq] by simp
  then show "py_get (search_tenders_tool lib catalog post args) ''success'' = Some (JBool True)"
    by simp
  have "\<exists>k. py_slice (py_slice seq 0 (min (max_results args) 1000)) 0 (max_results args)
               = take k seq"
    by (simp add: py_slice_from_start) blast
  with t show "\<exists>k. py_get (search_tenders_tool lib catalog post args) ''tenders''
                    = Some (JList (take k seq))"
    by simp
  {
    assume m: "0 \<le> max_results args"
    from m have "py_slice seq 0 (min (max_results args) 1000)
                     = take (nat (min (max_results args) 1000)) seq"
      by (simp add: py_slice_prefix)
    moreover from m have "py_slice (take (nat (min (max_results args) 1000)) seq) 0 (max_results args)
                     = take (nat (max_results args)) (take (nat (min (max_results args) 1000)) seq)"
      by (rule py_slice_prefix)
    moreover have "min (nat (max_results args)) (nat (min (max_results args) 1000))
                     = nat (min (max_results args) 1000)"
      by simp
    ultimately have "py_slice (py_slice seq 0 (min (max_results args) 1000)) 0 (max_results args)
        = take (nat (min (max_results args) 1000)) seq"
      by simp
    with t show "py_get (search_tenders_tool lib catalog post args) ''tenders''
                     = Some (JList (take (nat (min (max_results args) 1000)) seq))"
      by simp
  }
qed

theorem client_pages_tool_prefix_witness:
  "search_tenders test_lib twelve_upstream (default_call\<lparr>page_size' := 5, page_number' := 3\<rparr>)
     = Inr (JList [JInt 11, JInt 12])
   \<and> py_get (search_tenders_tool test_lib test_catalog twelve_upstream
               (default_args\<lparr>max_results := 5\<rparr>)) ''tenders''
     = Some (JList [JInt 1, JInt 2, JInt 3, JInt 4, JInt 5])"
  using client_pages_tool_prefix [of twelve_records
          "default_call\<lparr>page_size' := 5, page_number' := 3\<rparr>" twelve_upstream test_lib
          test_catalog "default_args\<lparr>max_results := 5\<rparr>" "default_call\<lparr>page_size' := 5\<rparr>"]
  by (simp add: tool_call_def default_args_def default_call_def
        twelve_upstream_def twelve_records_def legacy_days_back_def final_kod_yeshuv_def)

text \<open>
  The search tool on twelve records: with \<open>max_results = 5\<close> it returns the first five
  records, not the eleventh and the twelfth, and with the default arguments all twelve.
\<close>

theorem tool_takes_no_page_counterexample:
  "py_get (search_tenders_tool test_lib test_catalog twelve_upstream
             (default_args\<lparr>max_results := 5\<rparr>)) ''tenders''
     = Some (JList [JInt 1, JInt 2, JInt 3, JInt 4, JInt 5])
   \<and> py_get (search_tenders_tool test_lib test_catalog twelve_upstream
             (default_args\<lparr>max_results := 5\<rparr>)) ''tenders''
     \<noteq> Some (JList [twelve_records ! 10, twelve_records ! 11])
   \<and> py_get (search_tenders_tool test_lib test_catalog twelve_upstream default_args) ''tenders''
     = Some (JList twelve_records)"
  by (simp add: search_tenders_tool_def tool_call_def default_args_def twelve_upstream_def
        twelve_records_def legacy_days_back_def final_kod_yeshuv_def search_tenders_def
        py_slice_def clamp_index_def)

end
